theory Spec2Isabelle
  imports Main "HOL-Library.Word"
begin

unbundle bit_operations_syntax

section \<open>Strings and machine integers\<close>

text \<open>
  The module is one C++ file, \<^verbatim>\<open>process.cpp\<close>. Strings are byte strings; \<^verbatim>\<open>size_t\<close> is
  modelled at 64 bits (LP64) and \<^verbatim>\<open>int\<close>, \<^verbatim>\<open>DWORD\<close> at 32 bits. Values that are only
  compared and never computed with (return codes, process ids) are plain integers.
\<close>

type_synonym size_t = "64 word"
type_synonym cint = "32 word"

text \<open>\<^verbatim>\<open>std::string::npos\<close> is \<^verbatim>\<open>size_t(-1)\<close>.\<close>

definition npos :: size_t where
  "npos = - 1"

text \<open>
  \<^verbatim>\<open>std::string::rfind(char)\<close> (standard library): the index of the last occurrence of the
  character, \<^verbatim>\<open>npos\<close> when there is none. \<open>last_index\<close> scans left to right and keeps the
  latest hit.
\<close>

fun last_index :: "char \<Rightarrow> string \<Rightarrow> nat \<Rightarrow> nat option \<Rightarrow> nat option" where
  "last_index c [] i hit = hit"
| "last_index c (x # xs) i hit = last_index c xs (Suc i) (if x = c then Some i else hit)"

definition rfind :: "string \<Rightarrow> char \<Rightarrow> size_t" where
  "rfind s c = (case last_index c s 0 None of None \<Rightarrow> npos | Some i \<Rightarrow> word_of_nat i)"

text \<open>The same result read as a signed number: -1 for \<^verbatim>\<open>npos\<close>.\<close>

definition rfind_int :: "string \<Rightarrow> char \<Rightarrow> int" where
  "rfind_int s c = (case last_index c s 0 None of None \<Rightarrow> - 1 | Some i \<Rightarrow> int i)"

text \<open>
  \<^verbatim>\<open>const char*\<close> views of a string end at the first NUL byte: \<^verbatim>\<open>c_str()\<close> assigned to a
  \<^verbatim>\<open>std::string\<close>, or passed to \<^verbatim>\<open>strdup\<close>, copies the bytes before it.
\<close>

definition c_str :: "string \<Rightarrow> string" where
  "c_str s = takeWhile (\<lambda>c. c \<noteq> CHR 0x00) s"

definition dquote :: string where
  "dquote = [CHR 0x22]"

definition backslash :: char where
  "backslash = CHR 0x5C"

definition slash :: char where
  "slash = CHR 0x2F"

section \<open>Building the command line (\<^verbatim>\<open>ExecFunction::evaluate\<close>, lines 417-438)\<close>

text \<open>
  \<^verbatim>\<open>pos = (*lIter).rfind('\\')+(*lIter).rfind('/');\<close> is a sum of two \<^verbatim>\<open>size_t\<close> values, wrapping
  at 64 bits; \<^verbatim>\<open>int(pos)\<close> keeps the low 32 bits, read as two's complement.
\<close>

definition quote_pos :: "string \<Rightarrow> size_t" where
  "quote_pos a = rfind a backslash + rfind a slash"

definition int_of_size_t :: "size_t \<Rightarrow> cint" where
  "int_of_size_t p = ucast p"

definition arg_quoted :: "string \<Rightarrow> bool" where
  "arg_quoted a = (0 \<le> sint (int_of_size_t (quote_pos a)))"

text \<open>The loop over \<^verbatim>\<open>lArgs\<close>, appending to the stream \<^verbatim>\<open>lTmp\<close>.\<close>

fun append_args :: "string \<Rightarrow> string list \<Rightarrow> string" where
  "append_args lTmp [] = lTmp"
| "append_args lTmp (a # as) =
     append_args (if arg_quoted a then lTmp @ '' '' @ dquote @ a @ dquote
                  else lTmp @ '' '' @ a) as"

text \<open>\<open>win32\<close> is the compile-time switch \<^verbatim>\<open>#ifdef WIN32\<close>.\<close>

definition command_line :: "bool \<Rightarrow> string \<Rightarrow> string list \<Rightarrow> string" where
  "command_line win32 lCommand lArgs =
     (let lTmp0 = (if win32 then ''cmd /C '' @ dquote else []);
          lTmp1 = lTmp0 @ dquote @ lCommand @ dquote;
          lTmp2 = append_args lTmp1 lArgs
      in if win32 then lTmp2 @ dquote else lTmp2)"

section \<open>The exit code (\<^verbatim>\<open>ExecFunction::evaluate\<close>, lines 533-552)\<close>

text \<open>
  The macros of \<^verbatim>\<open><sys/wait.h>\<close> belong to the platform, not to the module: they are a
  parameter of the model.
\<close>

record wait_macros =
  WIFEXITED :: "cint \<Rightarrow> bool"
  WEXITSTATUS :: "cint \<Rightarrow> cint"
  WIFSIGNALED :: "cint \<Rightarrow> bool"
  WTERMSIG :: "cint \<Rightarrow> cint"
  WIFSTOPPED :: "cint \<Rightarrow> bool"
  WSTOPSIG :: "cint \<Rightarrow> cint"

definition exit_code_of :: "wait_macros \<Rightarrow> cint \<Rightarrow> cint" where
  "exit_code_of m stat =
     (if WIFEXITED m stat then WEXITSTATUS m stat
      else if WIFSIGNALED m stat then 128 + WTERMSIG m stat
      else if WIFSTOPPED m stat then 128 + WSTOPSIG m stat
      else 255)"

text \<open>
  A sample platform, used to run the model on concrete status words: the encoding of
  Linux, where the low seven bits hold the terminating signal (0 for a normal exit, 127
  for a stopped child) and bits 8-15 the exit code or the stopping signal.
\<close>

definition linux_wait :: wait_macros where
  "linux_wait =
     \<lparr> WIFEXITED = (\<lambda>s. s AND 0x7f = 0),
       WEXITSTATUS = (\<lambda>s. drop_bit 8 (s AND 0xff00)),
       WIFSIGNALED = (\<lambda>s. s AND 0x7f \<noteq> 0 \<and> s AND 0x7f \<noteq> 0x7f),
       WTERMSIG = (\<lambda>s. s AND 0x7f),
       WIFSTOPPED = (\<lambda>s. s AND 0xff = 0x7f),
       WSTOPSIG = (\<lambda>s. drop_bit 8 (s AND 0xff00)) \<rparr>"


section \<open>The POSIX backend\<close>

subsection \<open>Descriptors and the resources of one invocation\<close>

text \<open>
  \<^verbatim>\<open>exec_helper\<close> creates three pipes \<^verbatim>\<open>p_stdin\<close>, \<^verbatim>\<open>p_stdout\<close>, \<^verbatim>\<open>p_stderr\<close>, each an array
  indexed by \<^verbatim>\<open>READ\<close> and \<^verbatim>\<open>WRITE\<close>. A descriptor is named by its pipe and its end. The
  resources of an invocation are the descriptors open in the calling process, the log of
  the \<^verbatim>\<open>close\<close> calls made, and the children forked and not yet collected by \<^verbatim>\<open>waitpid\<close>.
\<close>

datatype stream = Stdin | Stdout | Stderr

datatype pend = READ | WRITE

type_synonym fd = "stream \<times> pend"

record resources =
  open_fds :: "fd list"
  closed_fds :: "fd list"
  children :: "int list"

definition no_resources :: resources where
  "no_resources = \<lparr> open_fds = [], closed_fds = [], children = [] \<rparr>"

text \<open>A successful \<^verbatim>\<open>pipe(p)\<close> opens both ends.\<close>

definition pipe_open :: "stream \<Rightarrow> resources \<Rightarrow> resources" where
  "pipe_open s r = r\<lparr> open_fds := open_fds r @ [(s, READ), (s, WRITE)] \<rparr>"

text \<open>\<^verbatim>\<open>close(fd)\<close> releases the descriptor (also when it reports an error, as on Linux).\<close>

definition close_fd :: "fd \<Rightarrow> resources \<Rightarrow> resources" where
  "close_fd d r = r\<lparr> open_fds := remove1 d (open_fds r), closed_fds := closed_fds r @ [d] \<rparr>"

subsection \<open>What the operating system answers\<close>

text \<open>
  One \<^verbatim>\<open>read(fd, lBuf, PATH_MAX)\<close> returns a positive length and that many bytes, 0 at end
  of stream, or -1 on an error. The answers a descriptor gives are a list; when the list
  is used up the next \<^verbatim>\<open>read\<close> never returns (the pipe is empty and a writer still holds
  it open).
\<close>

datatype rd = Data string | Eof | RdError

fun read_len :: "rd \<Rightarrow> int" where
  "read_len (Data bs) = int (length bs)"
| "read_len Eof = 0"
| "read_len RdError = - 1"

fun read_buf :: "rd \<Rightarrow> string" where
  "read_buf (Data bs) = bs"
| "read_buf Eof = []"
| "read_buf RdError = []"

text \<open>
  What the parent can observe of a child: the answers of the reads on its standard output
  and standard error pipes, and the status word \<^verbatim>\<open>waitpid\<close> stores.
\<close>

record behaviour =
  b_out :: "rd list"
  b_err :: "rd list"
  b_stat :: cint

text \<open>The request an \<^verbatim>\<open>exec\<close> call hands to the kernel.\<close>

record exec_request =
  x_file :: string
  x_path_search :: bool
  x_argv :: "string list"
  x_envp :: "string list"

record posix_os =
  pipe_rc :: "stream \<Rightarrow> int"
  fork_rc :: int
  kernel_exec :: "exec_request \<Rightarrow> behaviour option"
  strerror_errno :: string
  abort_stat :: cint
  close_rc :: "fd \<Rightarrow> int"
  waitpid_rc :: int
  wmacros :: wait_macros
  environ :: "string list"

text \<open>
  \<open>pipe_rc\<close>, \<open>close_rc\<close>, \<open>waitpid_rc\<close> are the values the calls return; \<open>fork_rc\<close> is
  the value \<^verbatim>\<open>fork()\<close> returns in the calling process (-1, or the child's positive pid);
  \<open>kernel_exec\<close> is \<open>None\<close> for a program that cannot be executed and otherwise what the
  program does; \<open>strerror_errno\<close> is the text \<^verbatim>\<open>perror\<close> prints for the failed \<^verbatim>\<open>exec\<close>;
  \<open>abort_stat\<close> is the status of a process that called \<^verbatim>\<open>abort()\<close>; \<open>environ\<close> is the
  environment of the calling process.
\<close>

subsection \<open>The child side of \<^verbatim>\<open>exec_helper\<close> (lines 311-344) and \<^verbatim>\<open>execvpe\<close> (lines 52-60)\<close>

text \<open>An \<^verbatim>\<open>exec\<close> call replaces the process image and does not return, or fails and returns -1.\<close>

datatype exec_outcome = Replaced exec_request behaviour | Exec_failed

definition kexec :: "posix_os \<Rightarrow> exec_request \<Rightarrow> exec_outcome" where
  "kexec os req = (case kernel_exec os req of None \<Rightarrow> Exec_failed | Some b \<Rightarrow> Replaced req b)"

text \<open>\<^verbatim>\<open>execl(path, arg0, ..., NULL)\<close>: no search, the current environment.\<close>

definition execl :: "posix_os \<Rightarrow> string list \<Rightarrow> string \<Rightarrow> string list \<Rightarrow> exec_outcome" where
  "execl os cur_environ path args =
     kexec os \<lparr> x_file = path, x_path_search = False, x_argv = args, x_envp = cur_environ \<rparr>"

text \<open>\<^verbatim>\<open>execvp(file, argv)\<close>: search along PATH, the current environment.\<close>

definition execvp :: "posix_os \<Rightarrow> string list \<Rightarrow> string \<Rightarrow> string list \<Rightarrow> exec_outcome" where
  "execvp os cur_environ program argv =
     kexec os \<lparr> x_file = program, x_path_search = True, x_argv = argv, x_envp = cur_environ \<rparr>"

text \<open>
  The module's own \<^verbatim>\<open>execvpe\<close>: it saves the global \<^verbatim>\<open>environ\<close>, points it at \<^verbatim>\<open>envp\<close>, calls
  \<^verbatim>\<open>execvp\<close> and, when that returns, restores the saved value. The result is the outcome
  and the value of \<^verbatim>\<open>environ\<close> afterwards.
\<close>

definition execvpe ::
  "posix_os \<Rightarrow> string list \<Rightarrow> string \<Rightarrow> string list \<Rightarrow> string list \<Rightarrow> exec_outcome \<times> string list"
where
  "execvpe os cur_environ program argv envp =
     (let saved = cur_environ;
          environ1 = envp;
          rc = execvp os environ1 program argv;
          environ2 = saved
      in (rc, environ2))"

text \<open>
  A \<^verbatim>\<open>char*\<close> vector is a list of optional strings (\<open>None\<close> is \<^verbatim>\<open>NULL\<close>); read as a C array it
  ends at the first \<^verbatim>\<open>NULL\<close>.
\<close>

definition c_array :: "string option list \<Rightarrow> string list" where
  "c_array v = map the (takeWhile (\<lambda>p. p \<noteq> None) v)"

text \<open>
  Lines 322-327. \<^verbatim>\<open>execvp(argv[0], argv)\<close> with \<^verbatim>\<open>argv[0] == NULL\<close> fails (the vector always has
  at least two slots, so \<^verbatim>\<open>argv[0]\<close> exists).
\<close>

definition child_exec ::
  "posix_os \<Rightarrow> string option \<Rightarrow> string option list \<Rightarrow> string option list option \<Rightarrow> exec_outcome"
where
  "child_exec os command argv env =
     (case command of
        Some c \<Rightarrow> execl os (environ os) ''/bin/sh'' [''sh'', ''-c'', c]
      | None \<Rightarrow>
          (case argv of
             Some argv0 # _ \<Rightarrow>
               (case env of
                  None \<Rightarrow> execvp os (environ os) argv0 (c_array argv)
                | Some e \<Rightarrow> fst (execvpe os (environ os) argv0 (c_array argv) (c_array e)))
           | _ \<Rightarrow> Exec_failed))"

text \<open>
  The child has its standard error bound to the write end of \<^verbatim>\<open>p_stderr\<close> (the \<^verbatim>\<open>dup2\<close> calls of
  lines 314-320). When the \<^verbatim>\<open>exec\<close> returns, \<^verbatim>\<open>perror("execl")\<close> writes the message there and
  \<^verbatim>\<open>abort()\<close> ends the child; the parent then reads nothing on standard output, the message
  on standard error, and collects the status of an aborted process.
\<close>

definition perror_text :: "posix_os \<Rightarrow> string" where
  "perror_text os = ''execl: '' @ strerror_errno os @ [CHR 0x0A]"

fun child_behaviour :: "posix_os \<Rightarrow> exec_outcome \<Rightarrow> behaviour" where
  "child_behaviour os (Replaced req b) = b"
| "child_behaviour os Exec_failed =
     \<lparr> b_out = [Eof], b_err = [Data (perror_text os), Eof], b_stat = abort_stat os \<rparr>"

subsection \<open>The parent side of \<^verbatim>\<open>exec_helper\<close> (lines 297-310, 346-365)\<close>

text \<open>
  \<open>infp\<close>, \<open>outfp\<close>, \<open>errfp\<close> say whether the pointer arguments are non-\<^verbatim>\<open>NULL\<close>; the record
  returned holds the return value, the descriptors stored through the pointers (\<open>None\<close>:
  nothing was stored), the resources afterwards and, when a child was forked, the outcome
  of the \<^verbatim>\<open>exec\<close> call it makes. The branch \<^verbatim>\<open>pid == 0\<close> runs in the child only and is
  \<open>child_exec\<close> above; in the calling process \<^verbatim>\<open>fork()\<close> returns a negative value or the
  child's pid.
\<close>

record helper_ret =
  h_pid :: int
  h_infp :: "fd option"
  h_outfp :: "fd option"
  h_errfp :: "fd option"
  h_res :: resources
  h_child :: "exec_outcome option"

definition helper_early :: "int \<Rightarrow> resources \<Rightarrow> helper_ret" where
  "helper_early rc r =
     \<lparr> h_pid = rc, h_infp = None, h_outfp = None, h_errfp = None, h_res = r, h_child = None \<rparr>"

definition exec_helper ::
  "posix_os \<Rightarrow> resources \<Rightarrow> bool \<Rightarrow> bool \<Rightarrow> bool \<Rightarrow> string option \<Rightarrow> string option list
     \<Rightarrow> string option list option \<Rightarrow> helper_ret"
where
  "exec_helper os r0 infp outfp errfp command argv env =
     (if pipe_rc os Stdin \<noteq> 0 then helper_early (- 1) r0
      else let r1 = pipe_open Stdin r0 in
      if pipe_rc os Stdout \<noteq> 0 then helper_early (- 1) r1
      else let r2 = pipe_open Stdout r1 in
      if pipe_rc os Stderr \<noteq> 0 then helper_early (- 1) r2
      else let r3 = pipe_open Stderr r2;
               pid = fork_rc os in
      if pid < 0 then helper_early pid r3
      else
        let r4 = r3\<lparr> children := children r3 @ [pid] \<rparr>;
            r5 = (if \<not> infp then close_fd (Stdin, WRITE) r4 else r4);
            r6 = (if \<not> outfp then close_fd (Stdout, READ) r5 else r5);
            r7 = (if \<not> errfp then close_fd (Stderr, READ) r6 else r6);
            r8 = close_fd (Stdin, READ) r7;
            r9 = close_fd (Stdout, WRITE) r8;
            r10 = close_fd (Stderr, WRITE) r9
        in \<lparr> h_pid = pid,
             h_infp = (if infp then Some (Stdin, WRITE) else None),
             h_outfp = (if outfp then Some (Stdout, READ) else None),
             h_errfp = (if errfp then Some (Stderr, READ) else None),
             h_res = r10,
             h_child = Some (child_exec os command argv env) \<rparr>)"


section \<open>Results and failures\<close>

text \<open>
  \<^verbatim>\<open>create_result_object\<close> (lines 69-83) builds a JSON object from three pairs, in this
  order.
\<close>

datatype json = JInt int | JString string

definition create_result_object :: "string \<Rightarrow> string \<Rightarrow> cint \<Rightarrow> (string \<times> json) list" where
  "create_result_object aStandardOut aErrorOut aExitCode =
     [(''exit-code'', JInt (sint aExitCode)),
      (''stdout'', JString aStandardOut),
      (''stderr'', JString aErrorOut)]"

text \<open>
  Every failure is a \<^verbatim>\<open>USER_EXCEPTION\<close> with the QName \<^verbatim>\<open>COMMUNICATION\<close>; the constructors
  name the \<^verbatim>\<open>throw\<close> sites:
  \<^item> \<open>Execute_failed n\<close>: "Failed to execute the command (n)" (lines 450 and 488);
  \<^item> \<open>Close_failed n\<close>: "Failed to close the err stream (n)" (line 514);
  \<^item> \<open>Wait_failed\<close>: "Failed to wait for child process" (line 527);
  \<^item> \<open>Pipe_failed\<close>: "Couldn't create one of std::cout/std::cerr pipe ..." (line 241);
  \<^item> \<open>Exit_code_failed cmd\<close>: "Couldn't get exit code from child process ..." (line 260);
  \<^item> \<open>Launch_error e\<close>: \<^verbatim>\<open>throw_last_error\<close> after a failed \<^verbatim>\<open>CreateProcess\<close> (line 285);
  \<^item> \<open>Read_error e\<close>: \<^verbatim>\<open>throw_last_error\<close> after a failed \<^verbatim>\<open>ReadFile\<close> (line 137).
\<close>

datatype failure =
    Execute_failed int
  | Close_failed int
  | Wait_failed
  | Pipe_failed
  | Exit_code_failed string
  | Launch_error nat
  | Read_error nat

text \<open>
  An invocation returns a result object, throws, or never returns (a call blocks for
  ever). \<open>Uninitialised\<close> stands for the use of a descriptor variable that nothing was
  stored in, which needs \<^verbatim>\<open>fork()\<close> to return a value below -1.
\<close>

datatype outcome =
    Result "(string \<times> json) list"
  | Throws failure
  | Never_returns
  | Uninitialised

section \<open>\<^verbatim>\<open>ExecFunction::evaluate\<close>, POSIX (lines 459-563)\<close>

text \<open>
  The two read loops (lines 497-500 and 504-507): \<^verbatim>\<open>while ((length = read(...)) > 0)\<close> appends
  the bytes read; any other return value ends the loop. \<open>None\<close>: a \<^verbatim>\<open>read\<close> never returns.
\<close>

fun drain :: "rd list \<Rightarrow> string \<Rightarrow> string option" where
  "drain [] acc = None"
| "drain (r # rs) acc = (if read_len r > 0 then drain rs (acc @ read_buf r) else Some acc)"

text \<open>The loops of lines 472-476: \<^verbatim>\<open>v[i] = strdup(xs[j].c_str())\<close> for consecutive \<open>i\<close>.\<close>

fun fill_from :: "nat \<Rightarrow> string list \<Rightarrow> string option list \<Rightarrow> string option list" where
  "fill_from i [] v = v"
| "fill_from i (a # as) v = fill_from (Suc i) as (v[i := Some (c_str a)])"

text \<open>Lines 495-552, once the child exists: drain, close, wait, encode.\<close>

definition drain_and_wait ::
  "posix_os \<Rightarrow> int \<Rightarrow> fd \<Rightarrow> fd \<Rightarrow> behaviour \<Rightarrow> resources \<Rightarrow> outcome \<times> resources"
where
  "drain_and_wait os pid outfp errfp child r =
     (case drain (b_out child) [] of
        None \<Rightarrow> (Never_returns, r)
      | Some lStdout \<Rightarrow>
          let status0 = close_rc os outfp;
              r1 = close_fd outfp r
          in (case drain (b_err child) [] of
                None \<Rightarrow> (Never_returns, r1)
              | Some lStderr \<Rightarrow>
                  let status = close_rc os errfp;
                      r2 = close_fd errfp r1
                  in if status < 0 then (Throws (Close_failed status), r2)
                     else
                       let w = waitpid_rc os
                       in if w = - 1 then (Throws Wait_failed, r2)
                          else
                            let r3 = r2\<lparr> children := remove1 pid (children r2) \<rparr>;
                                exit_code = exit_code_of (wmacros os) (b_stat child)
                            in (Result (create_result_object lStdout lStderr exit_code), r3)))"

text \<open>
  The arguments are the string values of the command item and of the items of the argument
  and environment sequences (empty when the sequence is absent); \<open>theIsExecProgram\<close> is
  the member set for the function \<^verbatim>\<open>exec\<close> and unset for \<^verbatim>\<open>exec-command\<close>.
\<close>

definition spawn_posix ::
  "posix_os \<Rightarrow> bool \<Rightarrow> string \<Rightarrow> string list \<Rightarrow> string list \<Rightarrow> helper_ret"
where
  "spawn_posix os theIsExecProgram aCommand aArgs aEnv =
     (let lCommand = c_str aCommand;
          lArgs = map c_str aArgs;
          lEnv = map c_str aEnv;
          lTmp = command_line False lCommand lArgs;
          argv0 = replicate (length lArgs + 2) None;
          env0 = replicate (length lEnv + 1) None
      in if theIsExecProgram then
           let argv = fill_from 1 lArgs (argv0[0 := Some (c_str lCommand)]);
               env = fill_from 0 lEnv env0
           in exec_helper os no_resources False True True None argv
                (if length lEnv \<noteq> 0 then Some env else None)
         else exec_helper os no_resources False True True (Some (c_str lTmp)) argv0 None)"

definition evaluate_posix ::
  "posix_os \<Rightarrow> bool \<Rightarrow> string \<Rightarrow> string list \<Rightarrow> string list \<Rightarrow> outcome \<times> resources"
where
  "evaluate_posix os theIsExecProgram aCommand aArgs aEnv =
     (let h = spawn_posix os theIsExecProgram aCommand aArgs aEnv
      in if h_pid h = - 1 then (Throws (Execute_failed (h_pid h)), h_res h)
         else
           (case (h_outfp h, h_errfp h, h_child h) of
              (Some outfp, Some errfp, Some child) \<Rightarrow>
                drain_and_wait os (h_pid h) outfp errfp (child_behaviour os child) (h_res h)
            | _ \<Rightarrow> (Uninitialised, h_res h)))"

section \<open>The Windows backend (lines 91-290 and 443-455)\<close>

text \<open>
  The six handles of \<^verbatim>\<open>run_process\<close>: the two ends of each pipe and the process and thread
  handles of \<^verbatim>\<open>PROCESS_INFORMATION\<close>. One \<^verbatim>\<open>ReadFile\<close> answers with its return value, the
  bytes read and the value \<^verbatim>\<open>GetLastError()\<close> has afterwards.
\<close>

datatype whandle = OutRead | StdOut | ErrRead | StdErr | HProcess | HThread

record wread =
  rf_ok :: bool
  rf_bytes :: string
  rf_last_error :: nat

text \<open>
  The arguments of \<^verbatim>\<open>CreateProcess\<close> that \<^verbatim>\<open>create_child_process\<close> (lines 160-213) sets: no
  application name, the command line, inherited handles, no environment block (the child
  gets the environment of the calling process), and the two pipe ends as standard output
  and standard error.
\<close>

record create_process_args =
  lApplicationName :: "string option"
  lCommandLine :: string
  lInheritHandles :: bool
  lEnvironment :: "string list option"
  hStdOutput :: whandle
  hStdError :: whandle

record win_os =
  CreatePipe_out_ok :: bool
  CreatePipe_err_ok :: bool
  CreateProcess_rc :: "create_process_args \<Rightarrow> int"
  launch_last_error :: nat
  wait_returns :: bool
  GetExitCodeProcess_ok :: bool
  process_exit_code :: cint
  w_out :: "wread list"
  w_err :: "wread list"

text \<open>\<^verbatim>\<open>ERROR_BROKEN_PIPE\<close> of \<^verbatim>\<open>winerror.h\<close>.\<close>

definition ERROR_BROKEN_PIPE :: nat where
  "ERROR_BROKEN_PIPE = 109"

definition carriage_return :: char where
  "carriage_return = CHR 0x0D"

text \<open>
  \<^verbatim>\<open>read_child_output\<close> (lines 120-154). \<open>Inl e\<close>: \<^verbatim>\<open>throw_last_error\<close> with last error \<open>e\<close>;
  \<open>None\<close>: a \<^verbatim>\<open>ReadFile\<close> never returns.
\<close>

fun read_child_output :: "wread list \<Rightarrow> string \<Rightarrow> (nat + string) option" where
  "read_child_output [] aTargetStream = None"
| "read_child_output (r # rs) aTargetStream =
     (if \<not> rf_ok r \<or> length (rf_bytes r) = 0 then
        (if rf_last_error r = ERROR_BROKEN_PIPE then Some (Inr aTargetStream)
         else Some (Inl (rf_last_error r)))
      else read_child_output rs
             (aTargetStream @ filter (\<lambda>c. c \<noteq> carriage_return) (rf_bytes r)))"

definition create_child_process_args :: "whandle \<Rightarrow> whandle \<Rightarrow> string \<Rightarrow> create_process_args" where
  "create_child_process_args aStdOutputPipe aStdErrorPipe aCommand =
     \<lparr> lApplicationName = None, lCommandLine = aCommand, lInheritHandles = True,
       lEnvironment = None, hStdOutput = aStdOutputPipe, hStdError = aStdErrorPipe \<rparr>"

definition create_child_process :: "win_os \<Rightarrow> whandle \<Rightarrow> whandle \<Rightarrow> string \<Rightarrow> int" where
  "create_child_process os aStdOutputPipe aStdErrorPipe aCommand =
     CreateProcess_rc os (create_child_process_args aStdOutputPipe aStdErrorPipe aCommand)"

definition wclose :: "whandle \<Rightarrow> whandle list \<times> whandle list \<Rightarrow> whandle list \<times> whandle list" where
  "wclose h hs = (remove1 h (fst hs), snd hs @ [h])"

text \<open>
  \<^verbatim>\<open>run_process\<close> (lines 219-290). The result is the exit code and the two captured streams,
  or the failure thrown, or \<open>None\<close> when a call never returns; with it the handles open
  and the log of the \<^verbatim>\<open>CloseHandle\<close> calls. \<^verbatim>\<open>CreateProcess\<close> fills in the process and thread
  handles when it returns non-zero.
\<close>

definition run_process ::
  "win_os \<Rightarrow> string \<Rightarrow> (failure + cint \<times> string \<times> string) option \<times> whandle list \<times> whandle list"
where
  "run_process os aCommand =
     (if \<not> CreatePipe_out_ok os then (Some (Inl Pipe_failed), [], [])
      else if \<not> CreatePipe_err_ok os then (Some (Inl Pipe_failed), [OutRead, StdOut], [])
      else
        let hs0 = ([OutRead, StdOut, ErrRead, StdErr], []);
            ok = create_child_process os StdOut StdErr aCommand;
            hs1 = (if ok \<noteq> 0 then (fst hs0 @ [HProcess, HThread], snd hs0) else hs0)
        in if ok = 1 then
             let hs2 = wclose HThread hs1
             in if \<not> wait_returns os then (None, hs2)
                else if \<not> GetExitCodeProcess_ok os then
                  (Some (Inl (Exit_code_failed aCommand)), hs2)
                else
                  let exitCode = process_exit_code os;
                      hs3 = wclose StdErr (wclose StdOut (wclose HProcess hs2))
                  in (case read_child_output (w_out os) [] of
                        None \<Rightarrow> (None, hs3)
                      | Some (Inl e) \<Rightarrow> (Some (Inl (Read_error e)), hs3)
                      | Some (Inr out) \<Rightarrow>
                          (case read_child_output (w_err os) [] of
                             None \<Rightarrow> (None, hs3)
                           | Some (Inl e) \<Rightarrow> (Some (Inl (Read_error e)), hs3)
                           | Some (Inr err) \<Rightarrow>
                               (Some (Inr (exitCode, out, err)),
                                wclose ErrRead (wclose OutRead hs3))))
           else
             (Some (Inl (Launch_error (launch_last_error os))),
              wclose ErrRead (wclose OutRead (wclose StdErr (wclose StdOut hs1)))))"

text \<open>
  \<^verbatim>\<open>evaluate\<close> under \<^verbatim>\<open>WIN32\<close>: the command line is built from the command and the arguments
  and run through \<^verbatim>\<open>cmd /C\<close>; \<^verbatim>\<open>theIsExecProgram\<close> and the environment sequence are not read.
\<close>

definition win32_command_line :: "bool \<Rightarrow> string \<Rightarrow> string list \<Rightarrow> string list \<Rightarrow> string" where
  "win32_command_line theIsExecProgram aCommand aArgs aEnv =
     (let lCommand = c_str aCommand;
          lArgs = map c_str aArgs
      in command_line True lCommand lArgs)"

definition evaluate_win32 ::
  "win_os \<Rightarrow> bool \<Rightarrow> string \<Rightarrow> string list \<Rightarrow> string list
     \<Rightarrow> outcome \<times> whandle list \<times> whandle list"
where
  "evaluate_win32 os theIsExecProgram aCommand aArgs aEnv =
     (let lCommandLineString = win32_command_line theIsExecProgram aCommand aArgs aEnv
      in (case run_process os lCommandLineString of
            (None, hs) \<Rightarrow> (Never_returns, hs)
          | (Some (Inl f), hs) \<Rightarrow> (Throws f, hs)
          | (Some (Inr (code, out, err)), hs) \<Rightarrow>
              if code \<noteq> 0 then (Throws (Execute_failed (sint code)), hs)
              else (Result (create_result_object out err code), hs)))"


section \<open>Draining while the child runs (POSIX)\<close>

text \<open>
  The read loops of lines 497-509 and the \<^verbatim>\<open>waitpid\<close> of line 522 run while the child is
  still writing. The model below puts the parent next to a child and the two pipes it
  reads.

  How much a pipe takes before a \<^verbatim>\<open>write\<close> blocks is the kernel's business and not a plain
  byte count (Linux counts page slots, so many short writes fill a pipe long before its
  nominal capacity). The pipe is therefore a parameter: \<open>p_queued\<close> are the bytes waiting
  to be read, oldest first; \<open>p_accept p bs\<close> is the number of bytes of a pending
  \<^verbatim>\<open>write\<close> of \<open>bs\<close> the kernel takes now, 0 when the \<^verbatim>\<open>write\<close> blocks; \<open>p_put\<close> and
  \<open>p_get\<close> are the pipe after bytes went in and after a \<^verbatim>\<open>read\<close> of at most \<open>n\<close> bytes.
\<close>

record 'p pipe_ops =
  p_empty :: 'p
  p_queued :: "'p \<Rightarrow> string"
  p_accept :: "'p \<Rightarrow> string \<Rightarrow> nat"
  p_put :: "'p \<Rightarrow> string \<Rightarrow> 'p"
  p_get :: "'p \<Rightarrow> nat \<Rightarrow> 'p"

text \<open>
  What is assumed of every pipe: it starts empty, it is first-in first-out, and a
  \<^verbatim>\<open>write\<close> to a pipe with nothing queued makes progress.
\<close>

definition pipe_laws :: "'p pipe_ops \<Rightarrow> bool" where
  "pipe_laws K \<longleftrightarrow>
     p_queued K (p_empty K) = [] \<and>
     (\<forall>p bs. p_queued K (p_put K p bs) = p_queued K p @ bs) \<and>
     (\<forall>p n. p_queued K (p_get K p n) = drop n (p_queued K p)) \<and>
     (\<forall>p bs. p_queued K p = [] \<and> bs \<noteq> [] \<longrightarrow> 0 < p_accept K p bs)"

text \<open>
  The child is a list of writes to its standard output or standard error; it exits,
  closing its write ends, when the list is used up. A \<^verbatim>\<open>read\<close> from an empty pipe blocks
  while the child still holds the write end (the parent closed its own copies in
  \<^verbatim>\<open>exec_helper\<close>, lines 362-363) and returns 0 afterwards; any \<^verbatim>\<open>read\<close> may also return -1,
  which ends the loop as 0 does; \<^verbatim>\<open>waitpid\<close> blocks until the child has exited.
  \<open>read_failed\<close> records that some \<^verbatim>\<open>read\<close> returned -1. The failures of \<^verbatim>\<open>close\<close> and
  \<^verbatim>\<open>waitpid\<close> are those of \<open>drain_and_wait\<close> and are left out here.
\<close>

datatype chan = Out | Err

datatype ppos = Drain_out | Drain_err | Waiting | Returned

record 'p sys =
  script :: "(chan \<times> string) list"
  pipe_out :: 'p
  pipe_err :: 'p
  lStdout :: string
  lStderr :: string
  pc :: ppos
  read_failed :: bool

text \<open>\<^verbatim>\<open>PATH_MAX\<close> of \<^verbatim>\<open><limits.h>\<close>, the size of \<^verbatim>\<open>lBuf\<close> (the value of Linux).\<close>

definition PATH_MAX :: nat where
  "PATH_MAX = 4096"

definition init :: "'p pipe_ops \<Rightarrow> (chan \<times> string) list \<Rightarrow> 'p sys" where
  "init K scr = \<lparr> script = scr, pipe_out = p_empty K, pipe_err = p_empty K,
                  lStdout = [], lStderr = [], pc = Drain_out, read_failed = False \<rparr>"

fun pipe_of :: "chan \<Rightarrow> 'p sys \<Rightarrow> 'p" where
  "pipe_of Out s = pipe_out s"
| "pipe_of Err s = pipe_err s"

fun push :: "'p pipe_ops \<Rightarrow> chan \<Rightarrow> string \<Rightarrow> 'p sys \<Rightarrow> 'p sys" where
  "push K Out bs s = s\<lparr> pipe_out := p_put K (pipe_out s) bs \<rparr>"
| "push K Err bs s = s\<lparr> pipe_err := p_put K (pipe_err s) bs \<rparr>"

text \<open>
  The parent has closed its read end of the standard output pipe once it has left the
  first loop (line 502), and that of the standard error pipe once it has left the second
  (line 509).
\<close>

fun reader_closed :: "chan \<Rightarrow> 'p sys \<Rightarrow> bool" where
  "reader_closed Out s = (pc s \<noteq> Drain_out)"
| "reader_closed Err s = (pc s = Waiting \<or> pc s = Returned)"

text \<open>
  One step of the child. A \<^verbatim>\<open>write\<close> of no bytes returns at once. A \<^verbatim>\<open>write\<close> to a pipe whose
  read end is closed raises SIGPIPE, whose default action ends the child. Otherwise the
  pending \<^verbatim>\<open>write\<close> moves the bytes the pipe accepts and goes on with the rest. \<open>None\<close>: the
  child has exited or is blocked.
\<close>

definition child_step :: "'p pipe_ops \<Rightarrow> 'p sys \<Rightarrow> 'p sys option" where
  "child_step K s =
     (case script s of
        [] \<Rightarrow> None
      | (c, bs) # rest \<Rightarrow>
          if bs = [] then Some (s\<lparr> script := rest \<rparr>)
          else if reader_closed c s then Some (s\<lparr> script := [] \<rparr>)
          else
            let n = p_accept K (pipe_of c s) bs
            in if n = 0 then None
               else Some (push K c (take n bs)
                            (s\<lparr> script := (if drop n bs = [] then rest
                                            else (c, drop n bs) # rest) \<rparr>)))"

text \<open>
  One step of the parent: an iteration of the first loop, of the second loop, or the
  \<^verbatim>\<open>waitpid\<close>. \<open>fails\<close> says that the \<^verbatim>\<open>read\<close> of this iteration returns -1. \<open>None\<close>: the call
  blocks, or the invocation has returned.
\<close>

definition parent_step :: "'p pipe_ops \<Rightarrow> bool \<Rightarrow> 'p sys \<Rightarrow> 'p sys option" where
  "parent_step K fails s =
     (case pc s of
        Drain_out \<Rightarrow>
          if fails then Some (s\<lparr> pc := Drain_err, read_failed := True \<rparr>)
          else if p_queued K (pipe_out s) \<noteq> [] then
            Some (s\<lparr> lStdout := lStdout s @ take PATH_MAX (p_queued K (pipe_out s)),
                     pipe_out := p_get K (pipe_out s) PATH_MAX \<rparr>)
          else if script s = [] then Some (s\<lparr> pc := Drain_err \<rparr>)
          else None
      | Drain_err \<Rightarrow>
          if fails then Some (s\<lparr> pc := Waiting, read_failed := True \<rparr>)
          else if p_queued K (pipe_err s) \<noteq> [] then
            Some (s\<lparr> lStderr := lStderr s @ take PATH_MAX (p_queued K (pipe_err s)),
                     pipe_err := p_get K (pipe_err s) PATH_MAX \<rparr>)
          else if script s = [] then Some (s\<lparr> pc := Waiting \<rparr>)
          else None
      | Waiting \<Rightarrow> if script s = [] then Some (s\<lparr> pc := Returned \<rparr>) else None
      | Returned \<Rightarrow> None)"

definition step :: "'p pipe_ops \<Rightarrow> 'p sys \<Rightarrow> 'p sys \<Rightarrow> bool" where
  "step K s s' \<longleftrightarrow>
     child_step K s = Some s' \<or> parent_step K False s = Some s' \<or> parent_step K True s = Some s'"

inductive reachable :: "'p pipe_ops \<Rightarrow> (chan \<times> string) list \<Rightarrow> 'p sys \<Rightarrow> bool" for K scr where
  reach_init: "reachable K scr (init K scr)"
| reach_step: "reachable K scr s \<Longrightarrow> step K s s' \<Longrightarrow> reachable K scr s'"

text \<open>
  The child cannot move, the parent's call blocks, and the invocation has not returned:
  nothing happens any more unless a \<^verbatim>\<open>read\<close> is interrupted.
\<close>

definition deadlocked :: "'p pipe_ops \<Rightarrow> 'p sys \<Rightarrow> bool" where
  "deadlocked K s \<longleftrightarrow>
     child_step K s = None \<and> parent_step K False s = None \<and> pc s \<noteq> Returned"

text \<open>The bytes a script writes to one stream, its writes to one stream, and all its bytes.\<close>

fun written :: "chan \<Rightarrow> (chan \<times> string) list \<Rightarrow> string" where
  "written c [] = []"
| "written c ((c', bs) # rest) = (if c' = c then bs @ written c rest else written c rest)"

fun writes_to :: "chan \<Rightarrow> (chan \<times> string) list \<Rightarrow> string list" where
  "writes_to c [] = []"
| "writes_to c ((c', bs) # rest) = (if c' = c then bs # writes_to c rest else writes_to c rest)"

fun pending :: "(chan \<times> string) list \<Rightarrow> nat" where
  "pending [] = 0"
| "pending ((c, bs) # rest) = length bs + pending rest"

fun rank :: "ppos \<Rightarrow> nat" where
  "rank Drain_out = 3"
| "rank Drain_err = 2"
| "rank Waiting = 1"
| "rank Returned = 0"

text \<open>A bound on the number of steps still possible.\<close>

definition work_left :: "'p pipe_ops \<Rightarrow> 'p sys \<Rightarrow> nat" where
  "work_left K s =
     2 * pending (script s) + length (script s) + length (p_queued K (pipe_out s))
       + length (p_queued K (pipe_err s)) + rank (pc s)"

text \<open>
  \<open>feeds K p bs\<close>: one blocking \<^verbatim>\<open>write\<close> of \<open>bs\<close> into the pipe \<open>p\<close> while nobody reads it.
  The result is the pipe afterwards, or \<open>None\<close> when the \<^verbatim>\<open>write\<close> blocks before all bytes
  are in. \<open>takes_all K p ws\<close>: the pipe takes the writes \<open>ws\<close>, one after the other,
  without any of them blocking.
\<close>

function feeds :: "'p pipe_ops \<Rightarrow> 'p \<Rightarrow> string \<Rightarrow> 'p option" where
  "feeds K p bs =
     (if bs = [] then Some p
      else if p_accept K p bs = 0 then None
      else feeds K (p_put K p (take (p_accept K p bs) bs)) (drop (p_accept K p bs) bs))"
  by pat_completeness auto
termination
  by (relation "measure (\<lambda>(K, p, bs). length bs)") auto

declare feeds.simps [simp del]

fun takes_all :: "'p pipe_ops \<Rightarrow> 'p \<Rightarrow> string list \<Rightarrow> bool" where
  "takes_all K p [] = True"
| "takes_all K p (w # ws) = (case feeds K p w of None \<Rightarrow> False | Some q \<Rightarrow> takes_all K q ws)"

text \<open>
  What holds in every state the system can reach from \<open>init K scr\<close>: nothing is captured
  from standard error while standard output is being drained; and, as long as no
  \<^verbatim>\<open>read\<close> has failed, on each stream the bytes captured, the bytes in the pipe and the bytes
  still to be written make up what the script writes, and the parent leaves a loop only
  after the child has exited and the pipe is empty.
\<close>

definition drain_inv :: "'p pipe_ops \<Rightarrow> (chan \<times> string) list \<Rightarrow> 'p sys \<Rightarrow> bool" where
  "drain_inv K scr s \<longleftrightarrow>
     (pc s = Drain_out \<longrightarrow> lStderr s = []) \<and>
     (\<not> read_failed s \<longrightarrow>
        lStdout s @ p_queued K (pipe_out s) @ written Out (script s) = written Out scr \<and>
        lStderr s @ p_queued K (pipe_err s) @ written Err (script s) = written Err scr \<and>
        (pc s \<noteq> Drain_out \<longrightarrow> script s = [] \<and> p_queued K (pipe_out s) = []) \<and>
        (pc s = Waiting \<or> pc s = Returned \<longrightarrow> p_queued K (pipe_err s) = []))"

text \<open>
  While standard output is being drained the standard error pipe is not read, and it
  still takes all the child has left to write to it.
\<close>

definition stderr_fits :: "'p pipe_ops \<Rightarrow> 'p sys \<Rightarrow> bool" where
  "stderr_fits K s \<longleftrightarrow>
     (pc s = Drain_out \<longrightarrow> takes_all K (pipe_err s) (writes_to Err (script s)))"

text \<open>A run under a schedule of moves of the child, of the parent, and of failing reads.\<close>

datatype move = Child_moves | Parent_moves | Read_fails

fun move_step :: "'p pipe_ops \<Rightarrow> move \<Rightarrow> 'p sys \<Rightarrow> 'p sys option" where
  "move_step K Child_moves s = child_step K s"
| "move_step K Parent_moves s = parent_step K False s"
| "move_step K Read_fails s = parent_step K True s"

fun run :: "'p pipe_ops \<Rightarrow> move list \<Rightarrow> 'p sys \<Rightarrow> 'p sys option" where
  "run K [] s = Some s"
| "run K (m # ms) s = (case move_step K m s of None \<Rightarrow> None | Some s' \<Rightarrow> run K ms s')"

subsection \<open>Two sample pipes\<close>

text \<open>
  A pipe that counts bytes: a \<^verbatim>\<open>write\<close> blocks when \<open>cap\<close> bytes are queued.
\<close>

definition bounded_pipe :: "nat \<Rightarrow> string pipe_ops" where
  "bounded_pipe cap =
     \<lparr> p_empty = [],
       p_queued = (\<lambda>p. p),
       p_accept = (\<lambda>p bs. min (cap - length p) (length bs)),
       p_put = (\<lambda>p bs. p @ bs),
       p_get = (\<lambda>p n. drop n p) \<rparr>"

text \<open>
  A pipe that counts page slots, after the Linux pipe: 16 slots of one page of 4096 bytes.
  A \<^verbatim>\<open>write\<close> that fits into the free part of the last slot is added to it; otherwise it
  starts a new slot, a page at a time, and blocks when the slots are used up. A \<^verbatim>\<open>read\<close>
  frees the slots it empties.
\<close>

fun drop_bytes :: "nat \<Rightarrow> string list \<Rightarrow> string list" where
  "drop_bytes n [] = []"
| "drop_bytes n (sl # rest) =
     (if length sl \<le> n then drop_bytes (n - length sl) rest else drop n sl # rest)"

definition merges :: "string list \<Rightarrow> string \<Rightarrow> bool" where
  "merges p bs \<longleftrightarrow> p \<noteq> [] \<and> length (last p) + length bs \<le> 4096"

definition page_pipe :: "string list pipe_ops" where
  "page_pipe =
     \<lparr> p_empty = [],
       p_queued = concat,
       p_accept = (\<lambda>p bs. if merges p bs then length bs
                           else if length (filter (\<lambda>sl. sl \<noteq> []) p) < 16
                                then min 4096 (length bs) else 0),
       p_put = (\<lambda>p bs. if merges p bs then butlast p @ [last p @ bs] else p @ [bs]),
       p_get = (\<lambda>p n. drop_bytes n p) \<rparr>"

subsection \<open>Two sample children\<close>

text \<open>
  A child that writes 65537 bytes to its standard error and then 65537 bytes to its
  standard output, on byte-counting pipes of 65536 bytes, and the state after its first
  step.
\<close>

definition big_writer :: "(chan \<times> string) list" where
  "big_writer = [(Err, replicate 65537 (CHR ''e'')), (Out, replicate 65537 (CHR ''o''))]"

definition big_stuck :: "string sys" where
  "big_stuck =
     \<lparr> script = [(Err, [CHR ''e'']), (Out, replicate 65537 (CHR ''o''))],
       pipe_out = [], pipe_err = replicate 65536 (CHR ''e''),
       lStdout = [], lStderr = [], pc = Drain_out, read_failed = False \<rparr>"

text \<open>
  A child that makes 17 writes of 2049 bytes to its standard error, 34833 bytes in all, and
  the state of the page-slot pipes after 16 of them.
\<close>

definition line :: string where
  "line = replicate 2049 (CHR ''e'')"

definition line_writer :: "(chan \<times> string) list" where
  "line_writer = replicate 17 (Err, line)"

definition line_stuck :: "string list sys" where
  "line_stuck =
     \<lparr> script = [(Err, line)],
       pipe_out = [], pipe_err = replicate 16 line,
       lStdout = [], lStderr = [], pc = Drain_out, read_failed = False \<rparr>"

section \<open>Sample environments\<close>

text \<open>
  Concrete environments on which the model is run: a POSIX system that knows one program,
  \<^verbatim>\<open>/bin/hello\<close>, which writes a line to each stream and exits with code 3, and a Windows
  system on which the command run by \<^verbatim>\<open>cmd\<close> does the same.
\<close>

definition hello :: behaviour where
  "hello = \<lparr> b_out = [Data ''hello-stdout'', Eof], b_err = [Data ''hello-stderr'', Eof],
             b_stat = 0x0300 \<rparr>"

definition sample_os :: posix_os where
  "sample_os =
     \<lparr> pipe_rc = (\<lambda>p. 0),
       fork_rc = 4242,
       kernel_exec = (\<lambda>req. if x_file req = ''/bin/hello'' then Some hello else None),
       strerror_errno = ''No such file or directory'',
       abort_stat = 6,
       close_rc = (\<lambda>d. 0),
       waitpid_rc = 4242,
       wmacros = linux_wait,
       environ = [''PATH=/bin'', ''HOME=/root''] \<rparr>"

definition broken_pipe :: wread where
  "broken_pipe = \<lparr> rf_ok = False, rf_bytes = [], rf_last_error = ERROR_BROKEN_PIPE \<rparr>"

definition sample_win :: win_os where
  "sample_win =
     \<lparr> CreatePipe_out_ok = True,
       CreatePipe_err_ok = True,
       CreateProcess_rc = (\<lambda>a. 1),
       launch_last_error = 2,
       wait_returns = True,
       GetExitCodeProcess_ok = True,
       process_exit_code = 3,
       w_out = [\<lparr> rf_ok = True, rf_bytes = ''hello-stdout'', rf_last_error = 0 \<rparr>, broken_pipe],
       w_err = [\<lparr> rf_ok = True, rf_bytes = ''hello-stderr'', rf_last_error = 0 \<rparr>, broken_pipe] \<rparr>"

section \<open>Properties of the command line\<close>

lemma last_index_absent: "c \<notin> set s \<Longrightarrow> last_index c s i hit = hit"
  by (induction s arbitrary: i hit) auto

lemma last_index_present:
  "c \<in> set s \<Longrightarrow>
     \<exists>k. last_index c s i hit = Some (i + k) \<and> k < length s \<and> s ! k = c \<and>
         (k = 0 \<longrightarrow> c \<notin> set (tl s))"
proof (induction s arbitrary: i hit)
  case Nil
  then show ?case by simp
next
  case (Cons x xs)
  show ?case
  proof (cases "c \<in> set xs")
    case True
    from Cons.IH [OF True, of "Suc i" "if x = c then Some i else hit"]
    obtain k where k: "last_index c xs (Suc i) (if x = c then Some i else hit) = Some (Suc i + k)"
      "k < length xs" "xs ! k = c" by blast
    then show ?thesis
      by (intro exI [of _ "Suc k"]) simp
  next
    case False
    with Cons.prems have "x = c" by simp
    with False show ?thesis
      by (intro exI [of _ 0]) (simp add: last_index_absent)
  qed
qed

lemma rfind_int_absent: "c \<notin> set s \<Longrightarrow> rfind_int s c = - 1"
  by (simp add: rfind_int_def last_index_absent)

lemma rfind_int_present:
  assumes "c \<in> set s"
  shows "0 \<le> rfind_int s c \<and> rfind_int s c < int (length s) \<and> s ! nat (rfind_int s c) = c \<and>
         (rfind_int s c = 0 \<longrightarrow> c \<notin> set (tl s))"
  using last_index_present [OF assms, of 0 None] by (auto simp: rfind_int_def)

lemma rfind_word: "rfind s c = word_of_int (rfind_int s c)"
  by (simp add: rfind_def rfind_int_def npos_def split: option.split)

text \<open>
  For an argument shorter than 2^30 bytes the sum cannot leave the range of \<^verbatim>\<open>int\<close>, and the
  test \<^verbatim>\<open>int(pos) >= 0\<close> compares the sum of the two signed positions with 0.
\<close>

lemma arg_quoted_int:
  assumes "length a < 2 ^ 30"
  shows "arg_quoted a \<longleftrightarrow> 0 \<le> rfind_int a backslash + rfind_int a slash"
proof -
  let ?p = "rfind_int a backslash + rfind_int a slash"
  have b1: "- 1 \<le> rfind_int a c \<and> rfind_int a c < int (length a)" for c
    using rfind_int_absent [of c a] rfind_int_present [of c a] by (cases "c \<in> set a") auto
  have lo: "- (2 ^ 31) \<le> ?p" using b1 [of backslash] b1 [of slash] by simp
  have "int (length a) < 2 ^ 30"
    using assms by (simp add: of_nat_less_iff [of _ "2 ^ 30", simplified])
  then have hi: "?p < 2 ^ 31" using b1 [of backslash] b1 [of slash] by simp
  have q: "quote_pos a = word_of_int ?p"
    by (simp add: quote_pos_def rfind_word)
  have "int_of_size_t (quote_pos a) = word_of_int ?p"
    unfolding int_of_size_t_def q by (rule ucast_down_wi) (simp add: is_down)
  then have "sint (int_of_size_t (quote_pos a)) = signed_take_bit 31 ?p"
    by (simp only: sint_sbintrunc') simp
  also have "\<dots> = ?p"
    using lo hi by (intro signed_take_bit_int_eq_self) simp_all
  finally have "sint (int_of_size_t (quote_pos a)) = ?p" .
  then show ?thesis by (simp add: arg_quoted_def)
qed

text \<open>
  What the test decides: an argument is quoted exactly when a separator occurs after its
  first byte. A separator in the first position alone does not count.
\<close>

lemma arg_quoted_iff:
  assumes "length a < 2 ^ 30"
  shows "arg_quoted a \<longleftrightarrow> backslash \<in> set (tl a) \<or> slash \<in> set (tl a)"
proof -
  have ne: "backslash \<noteq> slash" by (simp add: backslash_def slash_def)
  have tl_sub: "c \<in> set (tl a) \<Longrightarrow> c \<in> set a" for c
    by (cases a) auto
  have pos: "c \<in> set a \<Longrightarrow> 0 < rfind_int a c \<longleftrightarrow> c \<in> set (tl a)" for c
  proof -
    assume c: "c \<in> set a"
    note p = rfind_int_present [OF c]
    show ?thesis
    proof
      assume "0 < rfind_int a c"
      then obtain k where k: "rfind_int a c = int (Suc k)"
        by (metis Suc_pred' nat_0_le of_nat_0_less_iff order_less_imp_le zero_less_nat_eq)
      then have "nat (rfind_int a c) = Suc k" by simp
      with p k have "Suc k < length a" "a ! Suc k = c" by auto
      then show "c \<in> set (tl a)"
        by (cases a) (auto simp: in_set_conv_nth)
    next
      assume "c \<in> set (tl a)"
      with p show "0 < rfind_int a c" by (cases "rfind_int a c = 0") auto
    qed
  qed
  show ?thesis
  proof (cases "backslash \<in> set a")
    case bT: True
    show ?thesis
    proof (cases "slash \<in> set a")
      case sT: True
      note pb = rfind_int_present [OF bT] and ps = rfind_int_present [OF sT]
      have "rfind_int a backslash \<noteq> rfind_int a slash"
        using pb ps ne by metis
      then have "0 < rfind_int a backslash \<or> 0 < rfind_int a slash"
        using pb ps by linarith
      then have "backslash \<in> set (tl a) \<or> slash \<in> set (tl a)"
        using pos [OF bT] pos [OF sT] by blast
      moreover have "0 \<le> rfind_int a backslash + rfind_int a slash"
        using pb ps by simp
      ultimately show ?thesis by (simp add: arg_quoted_int [OF assms])
    next
      case sF: False
      then have "slash \<notin> set (tl a)" using tl_sub by blast
      then show ?thesis
        using pos [OF bT] rfind_int_absent [OF sF] by (simp add: arg_quoted_int [OF assms])
    qed
  next
    case bF: False
    then have nb: "backslash \<notin> set (tl a)" using tl_sub by blast
    show ?thesis
    proof (cases "slash \<in> set a")
      case sT: True
      then show ?thesis
        using pos [OF sT] rfind_int_absent [OF bF] nb by (simp add: arg_quoted_int [OF assms])
    next
      case sF: False
      then have "slash \<notin> set (tl a)" using tl_sub by blast
      then show ?thesis
        using nb rfind_int_absent [OF bF] rfind_int_absent [OF sF]
        by (simp add: arg_quoted_int [OF assms])
    qed
  qed
qed

lemma append_args_prefix: "append_args (p @ q) as = p @ append_args q as"
  by (induction as arbitrary: q) simp_all

text \<open>The command is quoted whatever it is, and the arguments follow it.\<close>

lemma command_line_posix:
  "command_line False lCommand lArgs = dquote @ lCommand @ dquote @ append_args [] lArgs"
  using append_args_prefix [of "dquote @ lCommand @ dquote" "[]" lArgs]
  by (simp add: command_line_def)

lemma command_line_win32:
  "command_line True lCommand lArgs = ''cmd /C '' @ dquote @ command_line False lCommand lArgs @ dquote"
  using append_args_prefix [of "''cmd /C '' @ dquote" "dquote @ lCommand @ dquote" lArgs]
  by (simp add: command_line_def)

text \<open>
  C6 (shell-string construction: the command is always quoted; an argument is quoted if and
  only if it contains a forward slash or a backslash). The code departs from this on an
  argument whose only separator is its first byte: for \<^verbatim>\<open>/tmp\<close> the backslash is not found
  (\<^verbatim>\<open>npos\<close>), the slash is found at index 0, the sum wraps to \<^verbatim>\<open>size_t(-1)\<close>, \<^verbatim>\<open>int(pos)\<close> is
  -1, and the argument is appended without quotes although it contains a slash. An
  argument with a separator further right, such as \<^verbatim>\<open>a/b\<close>, is quoted.
\<close>

theorem leading_separator_not_quoted:
  "slash \<in> set ''/tmp'' \<and> \<not> arg_quoted ''/tmp'' \<and> arg_quoted ''a/b'' \<and>
   command_line False ''ls'' [''/tmp'', ''a/b''] =
     dquote @ ''ls'' @ dquote @ '' /tmp '' @ dquote @ ''a/b'' @ dquote"
  by code_simp

section \<open>What the forked child executes\<close>

lemma c_str_idem: "c_str (c_str s) = c_str s"
  by (simp add: c_str_def)

text \<open>A string without a NUL byte is its own C string.\<close>

lemma c_str_id: "CHR 0x00 \<notin> set s \<Longrightarrow> c_str s = s"
  by (auto simp: c_str_def takeWhile_eq_all_conv)

lemma fill_from_eq:
  "i + length as \<le> length v \<Longrightarrow>
     fill_from i as v = take i v @ map (\<lambda>a. Some (c_str a)) as @ drop (i + length as) v"
proof (induction as arbitrary: i v)
  case Nil
  then show ?case by simp
next
  case (Cons a as)
  from Cons.prems have i: "i < length v" by simp
  have "fill_from i (a # as) v = fill_from (Suc i) as (v[i := Some (c_str a)])" by simp
  also have "\<dots> = take (Suc i) (v[i := Some (c_str a)]) @ map (\<lambda>a. Some (c_str a)) as
                     @ drop (Suc i + length as) (v[i := Some (c_str a)])"
    using Cons.prems by (intro Cons.IH) simp
  also have "take (Suc i) (v[i := Some (c_str a)]) = take i v @ [Some (c_str a)]"
    using i by (simp add: take_Suc_conv_app_nth)
  also have "drop (Suc i + length as) (v[i := Some (c_str a)]) = drop (i + length (a # as)) v"
    by simp
  finally show ?case by simp
qed

lemma drop_cons_replicate: "drop n (x # replicate n x) = [x]"
  by (induction n) simp_all

lemma c_array_Some: "c_array (map (\<lambda>a. Some (f a)) xs @ None # rest) = map f xs"
  by (induction xs) (simp_all add: c_array_def)

text \<open>The vectors \<^verbatim>\<open>argv\<close> and \<^verbatim>\<open>env\<close> as lines 464-476 leave them.\<close>

lemma argv_filled:
  "fill_from 1 as ((replicate (length as + 2) None)[0 := Some c])
     = Some c # map (\<lambda>a. Some (c_str a)) as @ [None]"
  by (simp add: fill_from_eq drop_cons_replicate)

lemma argv_built:
  "c_array (fill_from 1 as ((replicate (length as + 2) None)[0 := Some c])) = c # map c_str as"
proof -
  have "c_array (Some c # map (\<lambda>a. Some (c_str a)) as @ [None]) = c # map c_str as"
    using c_array_Some [of c_str as "[]"] by (simp add: c_array_def)
  then show ?thesis by (simp only: argv_filled)
qed

lemma env_built:
  "c_array (fill_from 0 es (replicate (length es + 1) None)) = map c_str es"
proof -
  have "fill_from 0 es (replicate (length es + 1) None) = map (\<lambda>a. Some (c_str a)) es @ [None]"
    by (simp add: fill_from_eq drop_cons_replicate)
  then show ?thesis
    using c_array_Some [of c_str es "[]"] by simp
qed

text \<open>
  The parent side of \<^verbatim>\<open>exec_helper\<close> when the three pipes and the fork succeed: the two read
  ends stay open for the caller, the other four descriptors are closed once each.
\<close>

lemma exec_helper_spawned:
  assumes "pipe_rc os Stdin = 0" "pipe_rc os Stdout = 0" "pipe_rc os Stderr = 0" "0 \<le> fork_rc os"
  shows "exec_helper os no_resources False True True command argv env =
           \<lparr> h_pid = fork_rc os, h_infp = None, h_outfp = Some (Stdout, READ),
             h_errfp = Some (Stderr, READ),
             h_res = \<lparr> open_fds = [(Stdout, READ), (Stderr, READ)],
                       closed_fds = [(Stdin, WRITE), (Stdin, READ), (Stdout, WRITE), (Stderr, WRITE)],
                       children = [fork_rc os] \<rparr>,
             h_child = Some (child_exec os command argv env) \<rparr>"
  using assms
  by (simp add: exec_helper_def Let_def pipe_open_def close_fd_def no_resources_def)

lemma child_exec_program:
  "child_exec os None
      (fill_from 1 (map c_str aArgs)
         ((replicate (length (map c_str aArgs) + 2) None)[0 := Some (c_str (c_str aCommand))]))
      (if length (map c_str aEnv) \<noteq> 0
       then Some (fill_from 0 (map c_str aEnv) (replicate (length (map c_str aEnv) + 1) None))
       else None)
   = kexec os \<lparr> x_file = c_str aCommand, x_path_search = True,
                x_argv = c_str aCommand # map c_str aArgs,
                x_envp = (if aEnv = [] then environ os else map c_str aEnv) \<rparr>"
proof -
  let ?argv = "fill_from 1 (map c_str aArgs)
                 ((replicate (length (map c_str aArgs) + 2) None)[0 := Some (c_str (c_str aCommand))])"
  let ?env = "fill_from 0 (map c_str aEnv) (replicate (length (map c_str aEnv) + 1) None)"
  have hd: "?argv = Some (c_str aCommand) # map (\<lambda>a. Some (c_str a)) (map c_str aArgs) @ [None]"
    using argv_filled [of "map c_str aArgs" "c_str (c_str aCommand)"] by (simp add: c_str_idem)
  have argv: "c_array ?argv = c_str aCommand # map c_str aArgs"
    using argv_built [of "map c_str aArgs" "c_str (c_str aCommand)"]
    by (simp add: c_str_idem comp_def)
  have env: "c_array ?env = map c_str aEnv"
    using env_built [of "map c_str aEnv"] by (simp add: c_str_idem comp_def)
  have "child_exec os None ?argv None =
          kexec os \<lparr> x_file = c_str aCommand, x_path_search = True,
                     x_argv = c_array ?argv, x_envp = environ os \<rparr>"
    unfolding child_exec_def by (subst (1) hd) (simp add: execvp_def)
  moreover have "child_exec os None ?argv (Some ?env) =
          kexec os \<lparr> x_file = c_str aCommand, x_path_search = True,
                     x_argv = c_array ?argv, x_envp = c_array ?env \<rparr>"
    unfolding child_exec_def by (subst (1) hd) (simp add: execvpe_def execvp_def Let_def)
  ultimately show ?thesis
    using argv env by (cases "aEnv = []") simp_all
qed

lemma spawn_posix_program:
  assumes "pipe_rc os Stdin = 0" "pipe_rc os Stdout = 0" "pipe_rc os Stderr = 0" "0 \<le> fork_rc os"
  shows "spawn_posix os True aCommand aArgs aEnv =
           \<lparr> h_pid = fork_rc os, h_infp = None, h_outfp = Some (Stdout, READ),
             h_errfp = Some (Stderr, READ),
             h_res = \<lparr> open_fds = [(Stdout, READ), (Stderr, READ)],
                       closed_fds = [(Stdin, WRITE), (Stdin, READ), (Stdout, WRITE), (Stderr, WRITE)],
                       children = [fork_rc os] \<rparr>,
             h_child = Some (kexec os \<lparr> x_file = c_str aCommand, x_path_search = True,
                                        x_argv = c_str aCommand # map c_str aArgs,
                                        x_envp = (if aEnv = [] then environ os
                                                  else map c_str aEnv) \<rparr>) \<rparr>"
  unfolding spawn_posix_def Let_def
  by (simp only: if_True exec_helper_spawned [OF assms] child_exec_program)

lemma spawn_posix_shell:
  assumes "pipe_rc os Stdin = 0" "pipe_rc os Stdout = 0" "pipe_rc os Stderr = 0" "0 \<le> fork_rc os"
  shows "spawn_posix os False aCommand aArgs aEnv =
           \<lparr> h_pid = fork_rc os, h_infp = None, h_outfp = Some (Stdout, READ),
             h_errfp = Some (Stderr, READ),
             h_res = \<lparr> open_fds = [(Stdout, READ), (Stderr, READ)],
                       closed_fds = [(Stdin, WRITE), (Stdin, READ), (Stdout, WRITE), (Stderr, WRITE)],
                       children = [fork_rc os] \<rparr>,
             h_child = Some (kexec os \<lparr> x_file = ''/bin/sh'', x_path_search = False,
                        x_argv = [''sh'', ''-c'',
                                  c_str (command_line False (c_str aCommand) (map c_str aArgs))],
                        x_envp = environ os \<rparr>) \<rparr>"
  unfolding spawn_posix_def Let_def
  by (simp add: exec_helper_spawned [OF assms] child_exec_def execl_def)

lemma sample_os_spawns:
  "pipe_rc sample_os Stdin = 0" "pipe_rc sample_os Stdout = 0" "pipe_rc sample_os Stderr = 0"
  "0 \<le> fork_rc sample_os"
  by (simp_all add: sample_os_def)

lemma sample_os_forks:
  "pipe_rc sample_os Stdin = 0" "pipe_rc sample_os Stdout = 0" "pipe_rc sample_os Stderr = 0"
  "0 < fork_rc sample_os"
  by (simp_all add: sample_os_def)

text \<open>
  C7 (program-args mode hands the program path and the arguments to the child as a vector,
  with no shell, on every backend). On the POSIX backend the forked child makes one
  \<^verbatim>\<open>exec\<close> request: the file is the command, searched along PATH, and the argument vector
  is the command followed by the arguments; \<^verbatim>\<open>/bin/sh\<close> is not involved. The Windows backend
  does not read \<^verbatim>\<open>theIsExecProgram\<close>: in both modes \<^verbatim>\<open>CreateProcess\<close> gets one command line,
  the shell string wrapped in \<^verbatim>\<open>cmd /C "..."\<close>.
\<close>

theorem program_args_vector:
  assumes "pipe_rc os Stdin = 0" "pipe_rc os Stdout = 0" "pipe_rc os Stderr = 0" "0 < fork_rc os"
  shows "h_child (spawn_posix os True aCommand aArgs aEnv) =
           Some (kexec os \<lparr> x_file = c_str aCommand, x_path_search = True,
                            x_argv = c_str aCommand # map c_str aArgs,
                            x_envp = (if aEnv = [] then environ os else map c_str aEnv) \<rparr>) \<and>
         lCommandLine (create_child_process_args StdOut StdErr
                         (win32_command_line isExec aCommand aArgs aEnv)) =
           ''cmd /C '' @ dquote @ command_line False (c_str aCommand) (map c_str aArgs) @ dquote"
proof -
  from assms(4) have "0 \<le> fork_rc os" by simp
  from spawn_posix_program [OF assms(1-3) this] show ?thesis
    by (simp add: create_child_process_args_def win32_command_line_def command_line_win32)
qed

theorem program_args_vector_witness:
  "pipe_rc sample_os Stdin = 0 \<and> pipe_rc sample_os Stdout = 0 \<and> pipe_rc sample_os Stderr = 0 \<and>
   0 < fork_rc sample_os \<and>
   h_child (spawn_posix sample_os True ''/bin/hello'' [''a b'', ''$HOME''] []) =
     Some (Replaced \<lparr> x_file = ''/bin/hello'', x_path_search = True,
                      x_argv = [''/bin/hello'', ''a b'', ''$HOME''],
                      x_envp = [''PATH=/bin'', ''HOME=/root''] \<rparr> hello)"
proof -
  have c: "c_str ''/bin/hello'' = ''/bin/hello''" "c_str ''a b'' = ''a b''"
    "c_str ''$HOME'' = ''$HOME''"
    by (simp_all add: c_str_def)
  show ?thesis
    using program_args_vector [OF sample_os_forks, of "''/bin/hello''" "[''a b'', ''$HOME'']" "[]"]
      sample_os_forks
    by (simp add: c kexec_def) (simp add: sample_os_def)
qed

text \<open>
  On Windows the same call in program-args mode: one string for \<^verbatim>\<open>cmd\<close>, in which the
  argument \<^verbatim>\<open>&calc\<close> is neither quoted nor a separate vector element.
\<close>

theorem win32_program_args_through_cmd:
  "lApplicationName (create_child_process_args StdOut StdErr
      (win32_command_line True ''prog'' [''&calc''] [])) = None \<and>
   lCommandLine (create_child_process_args StdOut StdErr
      (win32_command_line True ''prog'' [''&calc''] [])) =
     ''cmd /C '' @ dquote @ dquote @ ''prog'' @ dquote @ '' &calc'' @ dquote"
  by code_simp

text \<open>
  C8 (program-args mode with a non-empty environment sequence: the child's environment is
  exactly the supplied vector and replaces the inherited one). On the POSIX backend the
  request the child makes through the module's \<^verbatim>\<open>execvpe\<close> carries the supplied entries (as C
  strings) as its environment; the environment of the calling process does not occur in
  it. The Windows backend fills \<^verbatim>\<open>lEnv\<close> (lines 407-415) and never reads it: \<^verbatim>\<open>CreateProcess\<close>
  gets no environment block, so the child has the environment of the calling process, and
  the invocation is the same as with an empty environment sequence.
\<close>

theorem supplied_environment_replaces:
  assumes "pipe_rc os Stdin = 0" "pipe_rc os Stdout = 0" "pipe_rc os Stderr = 0" "0 < fork_rc os"
    and "aEnv \<noteq> []"
  shows "h_child (spawn_posix os True aCommand aArgs aEnv) =
           Some (kexec os \<lparr> x_file = c_str aCommand, x_path_search = True,
                            x_argv = c_str aCommand # map c_str aArgs,
                            x_envp = map c_str aEnv \<rparr>) \<and>
         lEnvironment (create_child_process_args StdOut StdErr
                         (win32_command_line isExec aCommand aArgs aEnv)) = None \<and>
         evaluate_win32 wos isExec aCommand aArgs aEnv = evaluate_win32 wos isExec aCommand aArgs []"
proof -
  from assms(4) have "0 \<le> fork_rc os" by simp
  from spawn_posix_program [OF assms(1-3) this] assms(5) show ?thesis
    by (simp add: create_child_process_args_def evaluate_win32_def win32_command_line_def)
qed

theorem supplied_environment_replaces_witness:
  "pipe_rc sample_os Stdin = 0 \<and> pipe_rc sample_os Stdout = 0 \<and> pipe_rc sample_os Stderr = 0 \<and>
   0 < fork_rc sample_os \<and> [''LANG=C'', ''X=1''] \<noteq> [] \<and>
   environ sample_os = [''PATH=/bin'', ''HOME=/root''] \<and>
   h_child (spawn_posix sample_os True ''/bin/hello'' [] [''LANG=C'', ''X=1'']) =
     Some (Replaced \<lparr> x_file = ''/bin/hello'', x_path_search = True,
                      x_argv = [''/bin/hello''], x_envp = [''LANG=C'', ''X=1''] \<rparr> hello)"
proof -
  have ne: "[''LANG=C'', ''X=1''] \<noteq> []" by simp
  have c: "c_str ''/bin/hello'' = ''/bin/hello''" "c_str ''LANG=C'' = ''LANG=C''"
    "c_str ''X=1'' = ''X=1''"
    by (simp_all add: c_str_def)
  show ?thesis
    using supplied_environment_replaces [OF sample_os_forks ne, of "''/bin/hello''" "[]"]
      sample_os_forks
    by (simp add: c kexec_def) (simp add: sample_os_def)
qed

text \<open>
  On Windows, program-args mode with the environment \<^verbatim>\<open>X=1\<close>: what \<^verbatim>\<open>CreateProcess\<close> is given
  has no environment block and no trace of the entry.
\<close>

theorem win32_environment_ignored:
  "create_child_process_args StdOut StdErr (win32_command_line True ''prog'' [] [''X=1'']) =
     \<lparr> lApplicationName = None,
       lCommandLine = ''cmd /C '' @ dquote @ dquote @ ''prog'' @ dquote @ dquote,
       lInheritHandles = True, lEnvironment = None, hStdOutput = StdOut, hStdError = StdErr \<rparr> \<and>
   evaluate_win32 sample_win True ''prog'' [] [''X=1''] =
     evaluate_win32 sample_win True ''prog'' [] []"
  by code_simp

text \<open>
  C10 (program-args mode with an empty environment sequence: the child inherits the
  environment of the calling process unchanged). With no entry the pointer passed is
  \<^verbatim>\<open>NULL\<close>, the child calls \<^verbatim>\<open>execvp\<close>, and the request carries \<^verbatim>\<open>environ\<close> as it is. On
  Windows \<^verbatim>\<open>CreateProcess\<close> gets no environment block, which also means the environment of the
  calling process.
\<close>

theorem empty_environment_inherits:
  assumes "pipe_rc os Stdin = 0" "pipe_rc os Stdout = 0" "pipe_rc os Stderr = 0" "0 < fork_rc os"
  shows "h_child (spawn_posix os True aCommand aArgs []) =
           Some (kexec os \<lparr> x_file = c_str aCommand, x_path_search = True,
                            x_argv = c_str aCommand # map c_str aArgs,
                            x_envp = environ os \<rparr>) \<and>
         lEnvironment (create_child_process_args StdOut StdErr
                         (win32_command_line True aCommand aArgs [])) = None"
proof -
  from assms(4) have "0 \<le> fork_rc os" by simp
  from spawn_posix_program [OF assms(1-3) this] show ?thesis
    by (simp add: create_child_process_args_def)
qed

theorem empty_environment_inherits_witness:
  "pipe_rc sample_os Stdin = 0 \<and> pipe_rc sample_os Stdout = 0 \<and> pipe_rc sample_os Stderr = 0 \<and>
   0 < fork_rc sample_os \<and>
   h_child (spawn_posix sample_os True ''/bin/hello'' [''x''] []) =
     Some (Replaced \<lparr> x_file = ''/bin/hello'', x_path_search = True,
                      x_argv = [''/bin/hello'', ''x''],
                      x_envp = [''PATH=/bin'', ''HOME=/root''] \<rparr> hello)"
proof -
  have c: "c_str ''/bin/hello'' = ''/bin/hello''" "c_str ''x'' = ''x''"
    by (simp_all add: c_str_def)
  show ?thesis
    using empty_environment_inherits [OF sample_os_forks, of "''/bin/hello''" "[''x'']"]
      sample_os_forks
    by (simp add: c kexec_def) (simp add: sample_os_def)
qed

section \<open>Properties of an invocation\<close>

lemma drain_and_wait_returns:
  assumes "drain (b_out b) [] = Some out" "drain (b_err b) [] = Some err"
    and "0 \<le> close_rc os errfp" "waitpid_rc os \<noteq> - 1"
  shows "drain_and_wait os pid outfp errfp b r =
           (Result (create_result_object out err (exit_code_of (wmacros os) (b_stat b))),
            (close_fd errfp (close_fd outfp r))
              \<lparr> children := remove1 pid (children (close_fd errfp (close_fd outfp r))) \<rparr>)"
  using assms by (simp add: drain_and_wait_def Let_def)

text \<open>The drain and the wait never report a failure to execute.\<close>

lemma drain_and_wait_not_execute_failed:
  "fst (drain_and_wait os pid outfp errfp b r) \<noteq> Throws (Execute_failed n)"
  by (simp add: drain_and_wait_def Let_def split: option.split)

lemma exec_helper_pipe_failed:
  assumes "pipe_rc os Stdin \<noteq> 0 \<or> pipe_rc os Stdout \<noteq> 0 \<or> pipe_rc os Stderr \<noteq> 0"
  shows "h_pid (exec_helper os r infp outfp errfp command argv env) = - 1"
  using assms by (auto simp: exec_helper_def helper_early_def Let_def)

lemma exec_helper_fork_failed:
  assumes "pipe_rc os Stdin = 0" "pipe_rc os Stdout = 0" "pipe_rc os Stderr = 0" "fork_rc os < 0"
  shows "exec_helper os r infp outfp errfp command argv env =
           helper_early (fork_rc os) (pipe_open Stderr (pipe_open Stdout (pipe_open Stdin r)))"
  using assms by (simp add: exec_helper_def Let_def)

lemma spawn_posix_cases:
  "spawn_posix os isExec aCommand aArgs aEnv =
     (if isExec then spawn_posix os True aCommand aArgs aEnv
      else spawn_posix os False aCommand aArgs aEnv)"
  by simp

text \<open>
  The invocation throws "Failed to execute the command" exactly when a \<^verbatim>\<open>pipe\<close> call fails
  or \<^verbatim>\<open>fork\<close> returns -1.
\<close>

lemma execute_failed_iff:
  "(\<exists>n. fst (evaluate_posix os isExec aCommand aArgs aEnv) = Throws (Execute_failed n)) \<longleftrightarrow>
     (pipe_rc os Stdin \<noteq> 0 \<or> pipe_rc os Stdout \<noteq> 0 \<or> pipe_rc os Stderr \<noteq> 0 \<or> fork_rc os = - 1)"
proof (cases "pipe_rc os Stdin \<noteq> 0 \<or> pipe_rc os Stdout \<noteq> 0 \<or> pipe_rc os Stderr \<noteq> 0")
  case True
  then have "h_pid (spawn_posix os isExec aCommand aArgs aEnv) = - 1"
    by (simp add: spawn_posix_def Let_def exec_helper_pipe_failed)
  then have "fst (evaluate_posix os isExec aCommand aArgs aEnv) = Throws (Execute_failed (- 1))"
    by (simp add: evaluate_posix_def Let_def)
  then show ?thesis using True by blast
next
  case False
  then have p: "pipe_rc os Stdin = 0" "pipe_rc os Stdout = 0" "pipe_rc os Stderr = 0" by simp_all
  show ?thesis
  proof (cases "fork_rc os < 0")
    case True
    have "spawn_posix os isExec aCommand aArgs aEnv =
            helper_early (fork_rc os)
              (pipe_open Stderr (pipe_open Stdout (pipe_open Stdin no_resources)))"
      by (simp add: spawn_posix_def Let_def exec_helper_fork_failed [OF p True])
    then show ?thesis
      using p by (simp add: evaluate_posix_def Let_def helper_early_def)
  next
    case False
    then have f: "0 \<le> fork_rc os" by simp
    then have ne: "fork_rc os \<noteq> - 1" by simp
    have "fst (evaluate_posix os isExec aCommand aArgs aEnv) \<noteq> Throws (Execute_failed n)" for n
      by (cases isExec)
        (simp_all add: evaluate_posix_def Let_def spawn_posix_program [OF p f]
          spawn_posix_shell [OF p f] ne drain_and_wait_not_execute_failed)
    then show ?thesis using p ne by simp
  qed
qed

lemma evaluate_posix_program:
  assumes "pipe_rc os Stdin = 0" "pipe_rc os Stdout = 0" "pipe_rc os Stderr = 0" "0 \<le> fork_rc os"
  shows "evaluate_posix os True aCommand aArgs aEnv =
           drain_and_wait os (fork_rc os) (Stdout, READ) (Stderr, READ)
             (child_behaviour os
                (kexec os \<lparr> x_file = c_str aCommand, x_path_search = True,
                             x_argv = c_str aCommand # map c_str aArgs,
                             x_envp = (if aEnv = [] then environ os else map c_str aEnv) \<rparr>))
             \<lparr> open_fds = [(Stdout, READ), (Stderr, READ)],
               closed_fds = [(Stdin, WRITE), (Stdin, READ), (Stdout, WRITE), (Stderr, WRITE)],
               children = [fork_rc os] \<rparr>"
proof -
  from assms(4) have "fork_rc os \<noteq> - 1" by simp
  then show ?thesis
    by (simp add: evaluate_posix_def Let_def spawn_posix_program [OF assms])
qed

lemma evaluate_posix_spawned:
  assumes "pipe_rc os Stdin = 0" "pipe_rc os Stdout = 0" "pipe_rc os Stderr = 0" "0 \<le> fork_rc os"
    and "h_child (spawn_posix os isExec aCommand aArgs aEnv) = Some child"
  shows "evaluate_posix os isExec aCommand aArgs aEnv =
           drain_and_wait os (fork_rc os) (Stdout, READ) (Stderr, READ) (child_behaviour os child)
             \<lparr> open_fds = [(Stdout, READ), (Stderr, READ)],
               closed_fds = [(Stdin, WRITE), (Stdin, READ), (Stdout, WRITE), (Stderr, WRITE)],
               children = [fork_rc os] \<rparr>"
proof -
  from assms(4) have ne: "fork_rc os \<noteq> - 1" by simp
  show ?thesis
  proof (cases isExec)
    case True
    with assms(5) show ?thesis
      by (simp add: evaluate_posix_def Let_def spawn_posix_program [OF assms(1-4)] ne)
  next
    case False
    with assms(5) show ?thesis
      by (simp add: evaluate_posix_def Let_def spawn_posix_shell [OF assms(1-4)] ne)
  qed
qed

lemma perror_text_drained: "drain [Data (perror_text os), Eof] [] = Some (perror_text os)"
  by (simp add: perror_text_def)

text \<open>
  C2 (an invocation naming a program that does not exist or cannot be executed fails with
  a spawn failure and produces no result). The failed \<^verbatim>\<open>exec\<close> happens in the child, after
  a successful \<^verbatim>\<open>fork\<close>: the child prints the \<^verbatim>\<open>perror\<close> message on the standard error pipe and
  aborts, and the parent, when the close and the wait succeed, returns a result with
  empty standard output, the message as standard error and the exit code of the aborted
  child. The failure "Failed to execute the command" is thrown exactly when \<^verbatim>\<open>pipe\<close> or
  \<^verbatim>\<open>fork\<close> fails.
\<close>

theorem missing_program_yields_result:
  "(pipe_rc os Stdin = 0 \<and> pipe_rc os Stdout = 0 \<and> pipe_rc os Stderr = 0 \<and> 0 < fork_rc os \<and>
    kernel_exec os \<lparr> x_file = c_str aCommand, x_path_search = True,
                      x_argv = c_str aCommand # map c_str aArgs,
                      x_envp = (if aEnv = [] then environ os else map c_str aEnv) \<rparr> = None \<and>
    0 \<le> close_rc os (Stderr, READ) \<and> waitpid_rc os \<noteq> - 1 \<longrightarrow>
    fst (evaluate_posix os True aCommand aArgs aEnv) =
      Result (create_result_object [] (perror_text os)
                (exit_code_of (wmacros os) (abort_stat os)))) \<and>
   ((\<exists>n. fst (evaluate_posix os isExec aCommand aArgs aEnv) = Throws (Execute_failed n)) \<longleftrightarrow>
      (pipe_rc os Stdin \<noteq> 0 \<or> pipe_rc os Stdout \<noteq> 0 \<or> pipe_rc os Stderr \<noteq> 0 \<or>
       fork_rc os = - 1))"
proof (intro conjI impI)
  assume a: "pipe_rc os Stdin = 0 \<and> pipe_rc os Stdout = 0 \<and> pipe_rc os Stderr = 0 \<and>
    0 < fork_rc os \<and>
    kernel_exec os \<lparr> x_file = c_str aCommand, x_path_search = True,
                      x_argv = c_str aCommand # map c_str aArgs,
                      x_envp = (if aEnv = [] then environ os else map c_str aEnv) \<rparr> = None \<and>
    0 \<le> close_rc os (Stderr, READ) \<and> waitpid_rc os \<noteq> - 1"
  then have p: "pipe_rc os Stdin = 0" "pipe_rc os Stdout = 0" "pipe_rc os Stderr = 0"
    "0 \<le> fork_rc os" by simp_all
  have k: "kexec os \<lparr> x_file = c_str aCommand, x_path_search = True,
                      x_argv = c_str aCommand # map c_str aArgs,
                      x_envp = (if aEnv = [] then environ os else map c_str aEnv) \<rparr> = Exec_failed"
    using a by (simp add: kexec_def)
  have "drain_and_wait os (fork_rc os) (Stdout, READ) (Stderr, READ)
          (child_behaviour os Exec_failed)
          \<lparr> open_fds = [(Stdout, READ), (Stderr, READ)],
            closed_fds = [(Stdin, WRITE), (Stdin, READ), (Stdout, WRITE), (Stderr, WRITE)],
            children = [fork_rc os] \<rparr>
        = (Result (create_result_object [] (perror_text os)
                     (exit_code_of (wmacros os) (b_stat (child_behaviour os Exec_failed)))),
           (close_fd (Stderr, READ) (close_fd (Stdout, READ)
              \<lparr> open_fds = [(Stdout, READ), (Stderr, READ)],
                closed_fds = [(Stdin, WRITE), (Stdin, READ), (Stdout, WRITE), (Stderr, WRITE)],
                children = [fork_rc os] \<rparr>))
             \<lparr> children := remove1 (fork_rc os) (children (close_fd (Stderr, READ)
                 (close_fd (Stdout, READ)
                   \<lparr> open_fds = [(Stdout, READ), (Stderr, READ)],
                     closed_fds = [(Stdin, WRITE), (Stdin, READ), (Stdout, WRITE), (Stderr, WRITE)],
                     children = [fork_rc os] \<rparr>))) \<rparr>)"
    using a by (intro drain_and_wait_returns) (simp_all add: perror_text_drained)
  then show "fst (evaluate_posix os True aCommand aArgs aEnv) =
      Result (create_result_object [] (perror_text os)
                (exit_code_of (wmacros os) (abort_stat os)))"
    by (simp add: evaluate_posix_program [OF p] k)
next
  show "(\<exists>n. fst (evaluate_posix os isExec aCommand aArgs aEnv) = Throws (Execute_failed n)) \<longleftrightarrow>
      (pipe_rc os Stdin \<noteq> 0 \<or> pipe_rc os Stdout \<noteq> 0 \<or> pipe_rc os Stderr \<noteq> 0 \<or>
       fork_rc os = - 1)"
    by (rule execute_failed_iff)
qed

theorem missing_program_yields_result_witness:
  "pipe_rc sample_os Stdin = 0 \<and> pipe_rc sample_os Stdout = 0 \<and> pipe_rc sample_os Stderr = 0 \<and>
   0 < fork_rc sample_os \<and>
   kernel_exec sample_os \<lparr> x_file = ''/usr/bin/nothing'', x_path_search = True,
                            x_argv = [''/usr/bin/nothing'', ''-v''],
                            x_envp = environ sample_os \<rparr> = None \<and>
   0 \<le> close_rc sample_os (Stderr, READ) \<and> waitpid_rc sample_os \<noteq> - 1 \<and>
   fst (evaluate_posix sample_os True ''/usr/bin/nothing'' [''-v''] []) =
     Result (create_result_object [] (''execl: No such file or directory'' @ [CHR 0x0A]) 134)"
proof -
  have c: "c_str ''/usr/bin/nothing'' = ''/usr/bin/nothing''" "c_str ''-v'' = ''-v''"
    by (simp_all add: c_str_def)
  have h: "pipe_rc sample_os Stdin = 0 \<and> pipe_rc sample_os Stdout = 0 \<and>
    pipe_rc sample_os Stderr = 0 \<and> 0 < fork_rc sample_os \<and>
    kernel_exec sample_os \<lparr> x_file = ''/usr/bin/nothing'', x_path_search = True,
                             x_argv = [''/usr/bin/nothing'', ''-v''],
                             x_envp = environ sample_os \<rparr> = None \<and>
    0 \<le> close_rc sample_os (Stderr, READ) \<and> waitpid_rc sample_os \<noteq> - 1"
    by (simp add: sample_os_def)
  have v: "perror_text sample_os = ''execl: No such file or directory'' @ [CHR 0x0A]"
    "exit_code_of (wmacros sample_os) (abort_stat sample_os) = 134"
    by (simp_all add: perror_text_def sample_os_def exit_code_of_def linux_wait_def)
  from missing_program_yields_result
    [of sample_os "''/usr/bin/nothing''" "[''-v'']" "[]" True] h c
  have "fst (evaluate_posix sample_os True ''/usr/bin/nothing'' [''-v''] []) =
     Result (create_result_object [] (perror_text sample_os)
               (exit_code_of (wmacros sample_os) (abort_stat sample_os)))"
    by simp
  with h v show ?thesis by simp
qed

text \<open>
  The program \<^verbatim>\<open>/no/such/program\<close> is unknown to the sample system; the invocation returns a
  result object with exit code 134, that is 128 + 6 for the abort signal.
\<close>

theorem missing_program_not_a_failure:
  "kernel_exec sample_os \<lparr> x_file = ''/no/such/program'', x_path_search = True,
                            x_argv = [''/no/such/program''],
                            x_envp = environ sample_os \<rparr> = None \<and>
   fst (evaluate_posix sample_os True ''/no/such/program'' [] []) =
     Result [(''exit-code'', JInt 134), (''stdout'', JString []),
             (''stderr'', JString (''execl: No such file or directory'' @ [CHR 0x0A]))]"
  by code_simp

section \<open>Properties of the exit code in the result\<close>

text \<open>The cascade of lines 533-552, as a function of the status word.\<close>

lemma exit_code_of_cascade:
  "(WIFEXITED m stat \<longrightarrow> exit_code_of m stat = WEXITSTATUS m stat) \<and>
   (\<not> WIFEXITED m stat \<and> WIFSIGNALED m stat \<longrightarrow> exit_code_of m stat = 128 + WTERMSIG m stat) \<and>
   (\<not> WIFEXITED m stat \<and> \<not> WIFSIGNALED m stat \<and> WIFSTOPPED m stat \<longrightarrow>
      exit_code_of m stat = 128 + WSTOPSIG m stat) \<and>
   (\<not> WIFEXITED m stat \<and> \<not> WIFSIGNALED m stat \<and> \<not> WIFSTOPPED m stat \<longrightarrow>
      exit_code_of m stat = 255)"
  by (simp add: exit_code_of_def)

text \<open>On Windows a result object always carries the exit code 0.\<close>

lemma win32_result_zero:
  assumes "fst (evaluate_win32 wos isExec aCommand aArgs aEnv) = Result obj"
  shows "process_exit_code wos = 0 \<and> map_of obj ''exit-code'' = Some (JInt 0)"
proof -
  let ?cmd = "win32_command_line isExec aCommand aArgs aEnv"
  obtain r hs where rp: "run_process wos ?cmd = (r, hs)" by (cases "run_process wos ?cmd")
  from assms rp obtain code out err where r: "r = Some (Inr (code, out, err))"
    and code: "code = 0" and obj: "obj = create_result_object out err code"
    by (auto simp: evaluate_win32_def Let_def split: option.splits sum.splits if_splits)
  from rp r have "code = process_exit_code wos"
    by (auto simp: run_process_def Let_def split: if_splits option.splits sum.splits)
  with code obj show ?thesis by (simp add: create_result_object_def)
qed

text \<open>
  C1 (the normalised exit code: a normal exit gives its code unchanged, a terminating
  signal \<open>s\<close> gives \<open>128 + s\<close>, a stopping signal \<open>s\<close> gives \<open>128 + s\<close>, any other status
  gives 255). On the POSIX backend this is the exit code of every result: when the child
  was spawned, the drains end and the close and the wait succeed, \<^verbatim>\<open>evaluate\<close> returns the
  two captured streams and the exit code computed from the status word of the child by
  the tests of \<^verbatim>\<open><sys/wait.h>\<close>, taken in the order of the code. On the Windows backend no
  status is mapped: a result always carries the exit code 0, and any other exit code of
  the child is thrown (see C4).
\<close>

theorem exit_code_normalised:
  "(pipe_rc os Stdin = 0 \<and> pipe_rc os Stdout = 0 \<and> pipe_rc os Stderr = 0 \<and> 0 < fork_rc os \<and>
    h_child (spawn_posix os isExec aCommand aArgs aEnv) = Some child \<and>
    drain (b_out (child_behaviour os child)) [] = Some out \<and>
    drain (b_err (child_behaviour os child)) [] = Some err \<and>
    0 \<le> close_rc os (Stderr, READ) \<and> waitpid_rc os \<noteq> - 1 \<longrightarrow>
    fst (evaluate_posix os isExec aCommand aArgs aEnv) =
      Result [(''exit-code'', JInt (sint
                (if WIFEXITED (wmacros os) (b_stat (child_behaviour os child))
                 then WEXITSTATUS (wmacros os) (b_stat (child_behaviour os child))
                 else if WIFSIGNALED (wmacros os) (b_stat (child_behaviour os child))
                 then 128 + WTERMSIG (wmacros os) (b_stat (child_behaviour os child))
                 else if WIFSTOPPED (wmacros os) (b_stat (child_behaviour os child))
                 then 128 + WSTOPSIG (wmacros os) (b_stat (child_behaviour os child))
                 else 255))),
              (''stdout'', JString out), (''stderr'', JString err)]) \<and>
   (fst (evaluate_win32 wos isExec aCommand aArgs aEnv) = Result obj \<longrightarrow>
      process_exit_code wos = 0 \<and> map_of obj ''exit-code'' = Some (JInt 0))"
proof (intro conjI impI)
  assume a: "pipe_rc os Stdin = 0 \<and> pipe_rc os Stdout = 0 \<and> pipe_rc os Stderr = 0 \<and>
    0 < fork_rc os \<and>
    h_child (spawn_posix os isExec aCommand aArgs aEnv) = Some child \<and>
    drain (b_out (child_behaviour os child)) [] = Some out \<and>
    drain (b_err (child_behaviour os child)) [] = Some err \<and>
    0 \<le> close_rc os (Stderr, READ) \<and> waitpid_rc os \<noteq> - 1"
  then have p: "pipe_rc os Stdin = 0" "pipe_rc os Stdout = 0" "pipe_rc os Stderr = 0"
    "0 \<le> fork_rc os" "h_child (spawn_posix os isExec aCommand aArgs aEnv) = Some child"
    by simp_all
  have d: "drain (b_out (child_behaviour os child)) [] = Some out"
    "drain (b_err (child_behaviour os child)) [] = Some err"
    "0 \<le> close_rc os (Stderr, READ)" "waitpid_rc os \<noteq> - 1"
    using a by simp_all
  show "fst (evaluate_posix os isExec aCommand aArgs aEnv) =
      Result [(''exit-code'', JInt (sint
                (if WIFEXITED (wmacros os) (b_stat (child_behaviour os child))
                 then WEXITSTATUS (wmacros os) (b_stat (child_behaviour os child))
                 else if WIFSIGNALED (wmacros os) (b_stat (child_behaviour os child))
                 then 128 + WTERMSIG (wmacros os) (b_stat (child_behaviour os child))
                 else if WIFSTOPPED (wmacros os) (b_stat (child_behaviour os child))
                 then 128 + WSTOPSIG (wmacros os) (b_stat (child_behaviour os child))
                 else 255))),
              (''stdout'', JString out), (''stderr'', JString err)]"
    by (simp add: evaluate_posix_spawned [OF p] drain_and_wait_returns [OF d]
        create_result_object_def exit_code_of_def)
next
  assume "fst (evaluate_win32 wos isExec aCommand aArgs aEnv) = Result obj"
  from win32_result_zero [OF this]
  show "process_exit_code wos = 0" "map_of obj ''exit-code'' = Some (JInt 0)"
    by simp_all
qed

lemma hello_drained:
  "drain (b_out hello) [] = Some ''hello-stdout''" "drain (b_err hello) [] = Some ''hello-stderr''"
  by (simp_all add: hello_def)

text \<open>
  On the sample system: the program that exits with code 3, a program killed by signal 9,
  and on Windows a command that exits with code 0.
\<close>

theorem exit_code_normalised_witness:
  "pipe_rc sample_os Stdin = 0 \<and> pipe_rc sample_os Stdout = 0 \<and> pipe_rc sample_os Stderr = 0 \<and>
   0 < fork_rc sample_os \<and>
   h_child (spawn_posix sample_os True ''/bin/hello'' [] []) =
     Some (Replaced \<lparr> x_file = ''/bin/hello'', x_path_search = True, x_argv = [''/bin/hello''],
                      x_envp = [''PATH=/bin'', ''HOME=/root''] \<rparr> hello) \<and>
   drain (b_out hello) [] = Some ''hello-stdout'' \<and> drain (b_err hello) [] = Some ''hello-stderr'' \<and>
   0 \<le> close_rc sample_os (Stderr, READ) \<and> waitpid_rc sample_os \<noteq> - 1 \<and>
   WIFEXITED linux_wait (b_stat hello) \<and>
   fst (evaluate_posix sample_os True ''/bin/hello'' [] []) =
     Result [(''exit-code'', JInt 3), (''stdout'', JString ''hello-stdout''),
             (''stderr'', JString ''hello-stderr'')] \<and>
   \<not> WIFEXITED linux_wait 9 \<and> WIFSIGNALED linux_wait 9 \<and>
   fst (evaluate_posix
          (sample_os\<lparr> kernel_exec := (\<lambda>req. Some \<lparr> b_out = [Eof], b_err = [Eof], b_stat = 9 \<rparr>) \<rparr>)
          True ''/bin/hello'' [] []) =
     Result [(''exit-code'', JInt 137), (''stdout'', JString []), (''stderr'', JString [])] \<and>
   fst (evaluate_win32 (sample_win\<lparr> process_exit_code := 0 \<rparr>) True ''/bin/hello'' [] []) =
     Result [(''exit-code'', JInt 0), (''stdout'', JString ''hello-stdout''),
             (''stderr'', JString ''hello-stderr'')] \<and>
   process_exit_code (sample_win\<lparr> process_exit_code := 0 \<rparr>) = 0"
proof -
  let ?killed = "\<lparr> b_out = [Eof], b_err = [Eof], b_stat = 9 \<rparr>"
  let ?os = "sample_os\<lparr> kernel_exec := (\<lambda>req. Some ?killed) \<rparr>"
  let ?req = "\<lparr> x_file = ''/bin/hello'', x_path_search = True, x_argv = [''/bin/hello''],
                x_envp = [''PATH=/bin'', ''HOME=/root''] \<rparr>"
  let ?wos = "sample_win\<lparr> process_exit_code := 0 \<rparr>"
  let ?wobj = "[(''exit-code'', JInt 0), (''stdout'', JString ''hello-stdout''),
                (''stderr'', JString ''hello-stderr'')]"
  have c: "c_str ''/bin/hello'' = ''/bin/hello''"
    by (simp add: c_str_def)
  have child: "h_child (spawn_posix sample_os True ''/bin/hello'' [] []) = Some (Replaced ?req hello)"
    by (simp add: spawn_posix_program [OF sample_os_spawns] c kexec_def) (simp add: sample_os_def)
  have px: "0 \<le> close_rc sample_os (Stderr, READ)" "waitpid_rc sample_os \<noteq> - 1"
    "wmacros sample_os = linux_wait"
    by (simp_all add: sample_os_def)
  have m3: "WIFEXITED linux_wait (b_stat hello)" "sint (WEXITSTATUS linux_wait (b_stat hello)) = 3"
    by (simp_all add: hello_def linux_wait_def)
  have os: "pipe_rc ?os Stdin = 0" "pipe_rc ?os Stdout = 0" "pipe_rc ?os Stderr = 0"
    "0 \<le> fork_rc ?os" "0 < fork_rc ?os"
    "0 \<le> close_rc ?os (Stderr, READ)" "waitpid_rc ?os \<noteq> - 1" "wmacros ?os = linux_wait"
    by (simp_all add: sample_os_def)
  have child9: "h_child (spawn_posix ?os True ''/bin/hello'' [] []) = Some (Replaced ?req ?killed)"
    by (simp add: spawn_posix_program [OF os(1-4)] c kexec_def) (simp add: sample_os_def)
  have m9: "\<not> WIFEXITED linux_wait 9" "WIFSIGNALED linux_wait 9"
    "sint (128 + WTERMSIG linux_wait 9) = 137"
    by (simp_all add: linux_wait_def)
  have w: "fst (evaluate_win32 ?wos True ''/bin/hello'' [] []) = Result ?wobj"
    by code_simp
  from exit_code_normalised
    [of sample_os True "''/bin/hello''" "[]" "[]" "Replaced ?req hello"
        "''hello-stdout''" "''hello-stderr''" ?wos ?wobj]
    sample_os_forks child hello_drained px m3 w
  have r3: "fst (evaluate_posix sample_os True ''/bin/hello'' [] []) =
     Result [(''exit-code'', JInt 3), (''stdout'', JString ''hello-stdout''),
             (''stderr'', JString ''hello-stderr'')]"
    and w0: "process_exit_code ?wos = 0"
    by simp_all
  from exit_code_normalised
    [of ?os True "''/bin/hello''" "[]" "[]" "Replaced ?req ?killed" "[]" "[]" ?wos ?wobj]
    os child9 m9
  have r9: "fst (evaluate_posix ?os True ''/bin/hello'' [] []) =
     Result [(''exit-code'', JInt 137), (''stdout'', JString []), (''stderr'', JString [])]"
    by simp
  from sample_os_forks child hello_drained px m3 r3 m9 r9 w w0 show ?thesis by simp
qed

text \<open>
  On Windows a child that exits with code 1 yields no exit code at all: the invocation
  throws.
\<close>

theorem win32_exit_code_thrown:
  "process_exit_code (sample_win\<lparr> process_exit_code := 1 \<rparr>) = 1 \<and>
   fst (evaluate_win32 (sample_win\<lparr> process_exit_code := 1 \<rparr>) True ''prog'' [] []) =
     Throws (Execute_failed 1)"
  by code_simp

lemma run_process_completes:
  assumes "CreatePipe_out_ok os" "CreatePipe_err_ok os"
    and "CreateProcess_rc os (create_child_process_args StdOut StdErr aCommand) = 1"
    and "wait_returns os" "GetExitCodeProcess_ok os"
    and "read_child_output (w_out os) [] = Some (Inr out)"
    and "read_child_output (w_err os) [] = Some (Inr err)"
  shows "run_process os aCommand =
           (Some (Inr (process_exit_code os, out, err)),
            [], [HThread, HProcess, StdOut, StdErr, OutRead, ErrRead])"
  using assms by (simp add: run_process_def create_child_process_def Let_def wclose_def)

text \<open>
  C4 (a child that was spawned and exits normally with code \<open>c\<close> yields a result whose
  exit code is \<open>c\<close>; a non-zero code is delivered, not reported as a failure, on every
  backend). On the POSIX backend this holds when the drains end, the close of the standard
  error descriptor and the wait succeed. On the Windows backend \<^verbatim>\<open>evaluate\<close> guards the
  result with \<^verbatim>\<open>if (code != 0) throw\<close>: only exit code 0 yields a result, any other code is
  thrown as "Failed to execute the command (code)".
\<close>

theorem normal_exit_code_delivered:
  "(pipe_rc os Stdin = 0 \<and> pipe_rc os Stdout = 0 \<and> pipe_rc os Stderr = 0 \<and> 0 < fork_rc os \<and>
    h_child (spawn_posix os isExec aCommand aArgs aEnv) = Some (Replaced req b) \<and>
    drain (b_out b) [] = Some out \<and> drain (b_err b) [] = Some err \<and>
    0 \<le> close_rc os (Stderr, READ) \<and> waitpid_rc os \<noteq> - 1 \<and>
    WIFEXITED (wmacros os) (b_stat b) \<longrightarrow>
    fst (evaluate_posix os isExec aCommand aArgs aEnv) =
      Result [(''exit-code'', JInt (sint (WEXITSTATUS (wmacros os) (b_stat b)))),
              (''stdout'', JString out), (''stderr'', JString err)]) \<and>
   (CreatePipe_out_ok wos \<and> CreatePipe_err_ok wos \<and>
    CreateProcess_rc wos (create_child_process_args StdOut StdErr
       (win32_command_line isExec aCommand aArgs aEnv)) = 1 \<and>
    wait_returns wos \<and> GetExitCodeProcess_ok wos \<and>
    read_child_output (w_out wos) [] = Some (Inr wout) \<and>
    read_child_output (w_err wos) [] = Some (Inr werr) \<longrightarrow>
    fst (evaluate_win32 wos isExec aCommand aArgs aEnv) =
      (if process_exit_code wos = 0
       then Result [(''exit-code'', JInt 0), (''stdout'', JString wout), (''stderr'', JString werr)]
       else Throws (Execute_failed (sint (process_exit_code wos)))))"
proof (intro conjI impI)
  assume a: "pipe_rc os Stdin = 0 \<and> pipe_rc os Stdout = 0 \<and> pipe_rc os Stderr = 0 \<and>
    0 < fork_rc os \<and>
    h_child (spawn_posix os isExec aCommand aArgs aEnv) = Some (Replaced req b) \<and>
    drain (b_out b) [] = Some out \<and> drain (b_err b) [] = Some err \<and>
    0 \<le> close_rc os (Stderr, READ) \<and> waitpid_rc os \<noteq> - 1 \<and>
    WIFEXITED (wmacros os) (b_stat b)"
  then have p: "pipe_rc os Stdin = 0" "pipe_rc os Stdout = 0" "pipe_rc os Stderr = 0"
    "0 \<le> fork_rc os" "h_child (spawn_posix os isExec aCommand aArgs aEnv) = Some (Replaced req b)"
    by simp_all
  have d: "drain (b_out b) [] = Some out" "drain (b_err b) [] = Some err"
    "0 \<le> close_rc os (Stderr, READ)" "waitpid_rc os \<noteq> - 1"
    using a by simp_all
  have "exit_code_of (wmacros os) (b_stat b) = WEXITSTATUS (wmacros os) (b_stat b)"
    using a by (simp add: exit_code_of_def)
  then show "fst (evaluate_posix os isExec aCommand aArgs aEnv) =
      Result [(''exit-code'', JInt (sint (WEXITSTATUS (wmacros os) (b_stat b)))),
              (''stdout'', JString out), (''stderr'', JString err)]"
    by (simp add: evaluate_posix_spawned [OF p] drain_and_wait_returns [OF d]
        create_result_object_def)
next
  assume a: "CreatePipe_out_ok wos \<and> CreatePipe_err_ok wos \<and>
    CreateProcess_rc wos (create_child_process_args StdOut StdErr
       (win32_command_line isExec aCommand aArgs aEnv)) = 1 \<and>
    wait_returns wos \<and> GetExitCodeProcess_ok wos \<and>
    read_child_output (w_out wos) [] = Some (Inr wout) \<and>
    read_child_output (w_err wos) [] = Some (Inr werr)"
  then have r: "run_process wos (win32_command_line isExec aCommand aArgs aEnv) =
           (Some (Inr (process_exit_code wos, wout, werr)),
            [], [HThread, HProcess, StdOut, StdErr, OutRead, ErrRead])"
    by (intro run_process_completes) simp_all
  show "fst (evaluate_win32 wos isExec aCommand aArgs aEnv) =
      (if process_exit_code wos = 0
       then Result [(''exit-code'', JInt 0), (''stdout'', JString wout), (''stderr'', JString werr)]
       else Throws (Execute_failed (sint (process_exit_code wos))))"
    by (simp add: evaluate_win32_def Let_def r create_result_object_def)
qed

lemma sample_win_read:
  "read_child_output (w_out sample_win) [] = Some (Inr ''hello-stdout'')"
  "read_child_output (w_err sample_win) [] = Some (Inr ''hello-stderr'')"
  by (simp_all add: sample_win_def broken_pipe_def carriage_return_def)

text \<open>
  The sample program exits with code 3: the POSIX backend returns the code in the result,
  the Windows backend throws.
\<close>

theorem normal_exit_code_delivered_witness:
  "pipe_rc sample_os Stdin = 0 \<and> pipe_rc sample_os Stdout = 0 \<and> pipe_rc sample_os Stderr = 0 \<and>
   0 < fork_rc sample_os \<and>
   h_child (spawn_posix sample_os True ''/bin/hello'' [] []) =
     Some (Replaced \<lparr> x_file = ''/bin/hello'', x_path_search = True, x_argv = [''/bin/hello''],
                      x_envp = [''PATH=/bin'', ''HOME=/root''] \<rparr> hello) \<and>
   drain (b_out hello) [] = Some ''hello-stdout'' \<and> drain (b_err hello) [] = Some ''hello-stderr'' \<and>
   0 \<le> close_rc sample_os (Stderr, READ) \<and> waitpid_rc sample_os \<noteq> - 1 \<and>
   WIFEXITED (wmacros sample_os) (b_stat hello) \<and>
   fst (evaluate_posix sample_os True ''/bin/hello'' [] []) =
     Result [(''exit-code'', JInt 3), (''stdout'', JString ''hello-stdout''),
             (''stderr'', JString ''hello-stderr'')] \<and>
   CreatePipe_out_ok sample_win \<and> CreatePipe_err_ok sample_win \<and>
   CreateProcess_rc sample_win (create_child_process_args StdOut StdErr
       (win32_command_line True ''/bin/hello'' [] [])) = 1 \<and>
   wait_returns sample_win \<and> GetExitCodeProcess_ok sample_win \<and>
   process_exit_code sample_win = 3 \<and>
   fst (evaluate_win32 sample_win True ''/bin/hello'' [] []) = Throws (Execute_failed 3)"
proof -
  have c: "c_str ''/bin/hello'' = ''/bin/hello''"
    by (simp add: c_str_def)
  have child: "h_child (spawn_posix sample_os True ''/bin/hello'' [] []) =
     Some (Replaced \<lparr> x_file = ''/bin/hello'', x_path_search = True, x_argv = [''/bin/hello''],
                      x_envp = [''PATH=/bin'', ''HOME=/root''] \<rparr> hello)"
    by (simp add: spawn_posix_program [OF sample_os_spawns] c kexec_def) (simp add: sample_os_def)
  have px: "0 \<le> close_rc sample_os (Stderr, READ)" "waitpid_rc sample_os \<noteq> - 1"
    "WIFEXITED (wmacros sample_os) (b_stat hello)"
    "sint (WEXITSTATUS (wmacros sample_os) (b_stat hello)) = 3"
    by (simp_all add: sample_os_def hello_def linux_wait_def)
  have w: "CreatePipe_out_ok sample_win" "CreatePipe_err_ok sample_win"
    "CreateProcess_rc sample_win (create_child_process_args StdOut StdErr
       (win32_command_line True ''/bin/hello'' [] [])) = 1"
    "wait_returns sample_win" "GetExitCodeProcess_ok sample_win"
    "process_exit_code sample_win = 3"
    by (simp_all add: sample_win_def)
  show ?thesis
    using normal_exit_code_delivered
      [of sample_os True "''/bin/hello''" "[]" "[]" _ hello "''hello-stdout''" "''hello-stderr''"
          sample_win "''hello-stdout''" "''hello-stderr''"]
      sample_os_forks child hello_drained px w sample_win_read
    by simp
qed

text \<open>On Windows a child that exits with code 3 makes the invocation throw.\<close>

theorem win32_nonzero_exit_throws:
  "process_exit_code sample_win = 3 \<and>
   fst (evaluate_win32 sample_win False ''hello'' [] []) = Throws (Execute_failed 3)"
  by code_simp

section \<open>Properties of the resources\<close>

text \<open>
  On the path without failures every descriptor is closed once and the child is collected.
\<close>

lemma normal_path_releases:
  assumes "pipe_rc os Stdin = 0" "pipe_rc os Stdout = 0" "pipe_rc os Stderr = 0" "0 \<le> fork_rc os"
    and "h_child (spawn_posix os isExec aCommand aArgs aEnv) = Some child"
    and "drain (b_out (child_behaviour os child)) [] = Some out"
    and "drain (b_err (child_behaviour os child)) [] = Some err"
    and "0 \<le> close_rc os (Stderr, READ)" "waitpid_rc os \<noteq> - 1"
  shows "snd (evaluate_posix os isExec aCommand aArgs aEnv) =
           \<lparr> open_fds = [],
             closed_fds = [(Stdin, WRITE), (Stdin, READ), (Stdout, WRITE), (Stderr, WRITE),
                           (Stdout, READ), (Stderr, READ)],
             children = [] \<rparr>"
  by (simp add: evaluate_posix_spawned [OF assms(1-5)] drain_and_wait_returns [OF assms(6-9)]
      close_fd_def)

text \<open>
  C5 (on every path, failing or not, every pipe handle and process handle created is
  released exactly once before the invocation returns or throws). When \<^verbatim>\<open>fork\<close> fails,
  \<^verbatim>\<open>exec_helper\<close> returns at line 310 with the three pipes open, and \<^verbatim>\<open>evaluate\<close> throws with
  all six descriptors still open and none closed. The Windows path for a failed
  \<^verbatim>\<open>CreateProcess\<close> (lines 279-282) closes its four pipe handles before it throws.
\<close>

theorem fork_failure_leaks_descriptors:
  "evaluate_posix (sample_os\<lparr> fork_rc := - 1 \<rparr>) True ''/bin/hello'' [] [] =
     (Throws (Execute_failed (- 1)),
      \<lparr> open_fds = [(Stdin, READ), (Stdin, WRITE), (Stdout, READ), (Stdout, WRITE),
                    (Stderr, READ), (Stderr, WRITE)],
        closed_fds = [], children = [] \<rparr>) \<and>
   run_process (sample_win\<lparr> CreateProcess_rc := (\<lambda>a. 0) \<rparr>) ''hello'' =
     (Some (Inl (Launch_error 2)), [], [StdOut, StdErr, OutRead, ErrRead])"
  by code_simp

section \<open>Properties of read errors\<close>

text \<open>
  C9 (an I/O error while reading a child pipe fails the invocation, and the output read so
  far is discarded). The POSIX loops treat the return value -1 as they treat 0: the loop
  ends and the bytes read so far are returned in the result. The Windows loop throws
  \<^verbatim>\<open>throw_last_error\<close> for any failure other than a broken pipe.
\<close>

theorem read_error_returns_partial_output:
  "fst (evaluate_posix
          (sample_os\<lparr> kernel_exec := (\<lambda>req. Some \<lparr> b_out = [Data ''partial'', RdError],
                                                    b_err = [Eof], b_stat = 0 \<rparr>) \<rparr>)
          True ''/bin/hello'' [] []) =
     Result [(''exit-code'', JInt 0), (''stdout'', JString ''partial''), (''stderr'', JString [])] \<and>
   fst (evaluate_win32
          (sample_win\<lparr> w_out := [\<lparr> rf_ok = True, rf_bytes = ''partial'', rf_last_error = 0 \<rparr>,
                                  \<lparr> rf_ok = False, rf_bytes = [], rf_last_error = 5 \<rparr>] \<rparr>)
          True ''/bin/hello'' [] []) =
     Throws (Read_error 5)"
  by code_simp

section \<open>Properties of the drain\<close>

lemma take_drop_append: "take n xs @ drop n xs @ ys = xs @ ys"
  by (metis append_assoc append_take_drop_id)

lemma pipe_laws_put: "pipe_laws K \<Longrightarrow> p_queued K (p_put K p bs) = p_queued K p @ bs"
  by (simp add: pipe_laws_def)

lemma pipe_laws_get: "pipe_laws K \<Longrightarrow> p_queued K (p_get K p n) = drop n (p_queued K p)"
  by (simp add: pipe_laws_def)

lemma pipe_laws_empty: "pipe_laws K \<Longrightarrow> p_queued K (p_empty K) = []"
  by (simp add: pipe_laws_def)

lemma pipe_laws_accept:
  "pipe_laws K \<Longrightarrow> p_queued K p = [] \<Longrightarrow> bs \<noteq> [] \<Longrightarrow> 0 < p_accept K p bs"
  by (simp add: pipe_laws_def)

text \<open>The shape of a step of the child that moves bytes.\<close>

lemma child_step_write:
  assumes "child_step K s = Some s'" "script s = (c, bs) # rest" "bs \<noteq> []"
    and "\<not> reader_closed c s"
  shows "p_accept K (pipe_of c s) bs \<noteq> 0 \<and>
         s' = push K c (take (p_accept K (pipe_of c s) bs) bs)
                (s\<lparr> script := (if drop (p_accept K (pipe_of c s) bs) bs = [] then rest
                                else (c, drop (p_accept K (pipe_of c s) bs) bs) # rest) \<rparr>)"
  using assms by (auto simp: child_step_def Let_def split: if_splits)

lemma drain_inv_init: "pipe_laws K \<Longrightarrow> drain_inv K scr (init K scr)"
  by (simp add: drain_inv_def init_def pipe_laws_empty)

lemma read_failed_child: "child_step K s = Some s' \<Longrightarrow> read_failed s' = read_failed s"
proof (cases "script s")
  case Nil
  assume "child_step K s = Some s'"
  with Nil show ?thesis by (simp add: child_step_def)
next
  case (Cons w rest)
  assume st: "child_step K s = Some s'"
  obtain c bs where w: "w = (c, bs)" by (cases w)
  from st Cons w show ?thesis
    by (cases c) (auto simp: child_step_def Let_def split: if_splits)
qed

lemma pc_child: "child_step K s = Some s' \<Longrightarrow> pc s' = pc s \<and> lStderr s' = lStderr s"
proof (cases "script s")
  case Nil
  assume "child_step K s = Some s'"
  with Nil show ?thesis by (simp add: child_step_def)
next
  case (Cons w rest)
  assume st: "child_step K s = Some s'"
  obtain c bs where w: "w = (c, bs)" by (cases w)
  from st Cons w show ?thesis
    by (cases c) (auto simp: child_step_def Let_def split: if_splits)
qed

lemma drain_inv_child:
  assumes laws: "pipe_laws K" and inv: "drain_inv K scr s" and st: "child_step K s = Some s'"
  shows "drain_inv K scr s'"
proof -
  from inv pc_child [OF st] have ser: "pc s' = Drain_out \<longrightarrow> lStderr s' = []"
    by (simp add: drain_inv_def)
  show ?thesis
  proof (cases "read_failed s")
    case True
    with read_failed_child [OF st] ser show ?thesis by (simp add: drain_inv_def)
  next
    case nf: False
    then have nf': "\<not> read_failed s'" using read_failed_child [OF st] by simp
    show ?thesis
    proof (cases "script s")
      case Nil
      with st show ?thesis by (simp add: child_step_def)
    next
      case (Cons w rest)
      obtain c bs where w: "w = (c, bs)" by (cases w)
      from inv nf Cons have pc: "pc s = Drain_out" by (auto simp: drain_inv_def)
      then have open_c: "\<not> reader_closed c s" by (cases c) simp_all
      show ?thesis
      proof (cases "bs = []")
        case True
        have "written c' ((c, []) # rest) = written c' rest" for c'
          by simp
        with inv st Cons w True nf show ?thesis
          by (auto simp: child_step_def drain_inv_def simp del: written.simps)
      next
        case False
        let ?n = "p_accept K (pipe_of c s) bs"
        from child_step_write [OF st _ False open_c] Cons w
        have s': "s' = push K c (take ?n bs)
                    (s\<lparr> script := (if drop ?n bs = [] then rest else (c, drop ?n bs) # rest) \<rparr>)"
          by simp
        show ?thesis
        proof (cases c)
          case Out
          with inv Cons w pc nf show ?thesis
            unfolding s' drain_inv_def
            by (auto simp: pipe_laws_put [OF laws] take_drop_append)
        next
          case Err
          with inv Cons w pc nf show ?thesis
            unfolding s' drain_inv_def
            by (auto simp: pipe_laws_put [OF laws] take_drop_append)
        qed
      qed
    qed
  qed
qed

lemma drain_inv_parent:
  assumes laws: "pipe_laws K" and inv: "drain_inv K scr s"
    and st: "parent_step K fails s = Some s'"
  shows "drain_inv K scr s'"
proof (cases "pc s")
  case Drain_out
  with inv st show ?thesis
    by (auto simp: parent_step_def drain_inv_def pipe_laws_get [OF laws] take_drop_append
        split: if_splits)
next
  case Drain_err
  with inv st show ?thesis
    by (auto simp: parent_step_def drain_inv_def pipe_laws_get [OF laws] take_drop_append
        split: if_splits)
next
  case Waiting
  with inv st show ?thesis
    by (auto simp: parent_step_def drain_inv_def split: if_splits)
next
  case Returned
  with st show ?thesis by (simp add: parent_step_def)
qed

lemma reachable_drain_inv:
  assumes "pipe_laws K" "reachable K scr s"
  shows "drain_inv K scr s"
  using assms(2)
proof (induction rule: reachable.induct)
  case reach_init
  show ?case by (rule drain_inv_init [OF assms(1)])
next
  case (reach_step s s')
  then show ?case
    by (auto simp: step_def intro: drain_inv_child [OF assms(1)] drain_inv_parent [OF assms(1)])
qed

text \<open>One part of a write that does not block leaves a write that does not block.\<close>

lemma feeds_part:
  assumes "feeds K p bs = Some q" "bs \<noteq> []"
  shows "p_accept K p bs \<noteq> 0 \<and>
         feeds K (p_put K p (take (p_accept K p bs) bs)) (drop (p_accept K p bs) bs) = Some q"
  using assms by (subst (asm) feeds.simps) (auto split: if_splits)

lemma feeds_Nil: "feeds K p [] = Some p"
  by (subst feeds.simps) simp

lemma stderr_fits_child:
  assumes fits: "stderr_fits K s" and st: "child_step K s = Some s'"
  shows "stderr_fits K s'"
proof (cases "pc s = Drain_out")
  case False
  with pc_child [OF st] show ?thesis by (simp add: stderr_fits_def)
next
  case pc: True
  with fits have t: "takes_all K (pipe_err s) (writes_to Err (script s))"
    by (simp add: stderr_fits_def)
  show ?thesis
  proof (cases "script s")
    case Nil
    with st show ?thesis by (simp add: child_step_def)
  next
    case (Cons w rest)
    obtain c bs where w: "w = (c, bs)" by (cases w)
    from pc have open_c: "\<not> reader_closed c s" by (cases c) simp_all
    show ?thesis
    proof (cases "bs = []")
      case True
      with st Cons w have s': "s' = s\<lparr> script := rest \<rparr>" by (simp add: child_step_def)
      from t Cons w True show ?thesis
        unfolding s' stderr_fits_def by (cases c) (simp_all add: feeds_Nil)
    next
      case False
      let ?n = "p_accept K (pipe_of c s) bs"
      from child_step_write [OF st _ False open_c] Cons w
      have s': "s' = push K c (take ?n bs)
                  (s\<lparr> script := (if drop ?n bs = [] then rest else (c, drop ?n bs) # rest) \<rparr>)"
        by simp
      show ?thesis
      proof (cases c)
        case Out
        with t Cons w show ?thesis
          unfolding s' stderr_fits_def by simp
      next
        case Err
        from t Cons w Err obtain q where q: "feeds K (pipe_err s) bs = Some q"
          "takes_all K q (writes_to Err rest)"
          by (auto split: option.splits)
        from feeds_part [OF q(1) False]
        have part: "feeds K (p_put K (pipe_err s) (take (p_accept K (pipe_err s) bs) bs))
                      (drop (p_accept K (pipe_err s) bs) bs) = Some q"
          by simp
        show ?thesis
        proof (cases "drop (p_accept K (pipe_err s) bs) bs = []")
          case True
          with part have "q = p_put K (pipe_err s) (take (p_accept K (pipe_err s) bs) bs)"
            by (simp add: feeds_Nil)
          with q(2) True Err show ?thesis
            unfolding s' stderr_fits_def by simp
        next
          case False
          with part q(2) Err show ?thesis
            unfolding s' stderr_fits_def by simp
        qed
      qed
    qed
  qed
qed

lemma stderr_fits_parent:
  assumes "stderr_fits K s" "parent_step K fails s = Some s'"
  shows "stderr_fits K s'"
  using assms
  by (cases "pc s") (auto simp: parent_step_def stderr_fits_def split: if_splits)

lemma reachable_stderr_fits:
  assumes "takes_all K (p_empty K) (writes_to Err scr)" "reachable K scr s"
  shows "stderr_fits K s"
  using assms(2)
proof (induction rule: reachable.induct)
  case reach_init
  from assms(1) show ?case by (simp add: stderr_fits_def init_def)
next
  case (reach_step s s')
  then show ?case
    by (auto simp: step_def intro: stderr_fits_child stderr_fits_parent)
qed

lemma work_left_child:
  assumes laws: "pipe_laws K" and st: "child_step K s = Some s'"
  shows "work_left K s' < work_left K s"
proof (cases "script s")
  case Nil
  with st show ?thesis by (simp add: child_step_def)
next
  case (Cons w rest)
  obtain c bs where w: "w = (c, bs)" by (cases w)
  show ?thesis
  proof (cases "bs = []")
    case True
    with st Cons w show ?thesis
      by (auto simp: child_step_def work_left_def)
  next
    case ne: False
    show ?thesis
    proof (cases "reader_closed c s")
      case True
      with st Cons w ne have "s' = s\<lparr> script := [] \<rparr>" by (simp add: child_step_def)
      with Cons w ne show ?thesis by (simp add: work_left_def)
    next
      case False
      let ?n = "p_accept K (pipe_of c s) bs"
      from child_step_write [OF st _ ne False] Cons w
      have n: "?n \<noteq> 0"
        and s': "s' = push K c (take ?n bs)
                  (s\<lparr> script := (if drop ?n bs = [] then rest else (c, drop ?n bs) # rest) \<rparr>)"
        by simp_all
      from ne have "0 < length bs" by simp
      with n Cons w show ?thesis
        unfolding s' work_left_def
        by (cases c) (auto simp: pipe_laws_put [OF laws] min_def)
    qed
  qed
qed

lemma work_left_parent:
  assumes laws: "pipe_laws K" and st: "parent_step K fails s = Some s'"
  shows "work_left K s' < work_left K s"
proof -
  have "0 < PATH_MAX" by (simp add: PATH_MAX_def)
  with st show ?thesis
    by (cases "pc s")
      (auto simp: parent_step_def work_left_def pipe_laws_get [OF laws] split: if_splits)
qed

text \<open>
  While no read has failed and the standard error pipe takes what the child writes to it,
  one of the two sides can always move until the invocation has returned.
\<close>

lemma no_deadlock:
  assumes laws: "pipe_laws K" and inv: "drain_inv K scr s" and fits: "stderr_fits K s"
    and nf: "\<not> read_failed s"
  shows "\<not> deadlocked K s"
proof (cases "pc s")
  case Drain_out
  show ?thesis
  proof (cases "p_queued K (pipe_out s) \<noteq> [] \<or> script s = []")
    case True
    with Drain_out show ?thesis by (auto simp: deadlocked_def parent_step_def)
  next
    case False
    then obtain c bs rest where scr: "script s = (c, bs) # rest"
      and po: "p_queued K (pipe_out s) = []"
      by (cases "script s") auto
    from Drain_out have open_c: "\<not> reader_closed c s" by (cases c) simp_all
    show ?thesis
    proof (cases "bs = []")
      case True
      with scr show ?thesis by (simp add: deadlocked_def child_step_def)
    next
      case False
      have "p_accept K (pipe_of c s) bs \<noteq> 0"
      proof (cases c)
        case Out
        with pipe_laws_accept [OF laws po False] show ?thesis by simp
      next
        case Err
        from fits Drain_out scr Err obtain q where "feeds K (pipe_err s) bs = Some q"
          by (auto simp: stderr_fits_def split: option.splits)
        from feeds_part [OF this False] Err show ?thesis by simp
      qed
      with scr False open_c show ?thesis
        by (simp add: deadlocked_def child_step_def Let_def)
    qed
  qed
next
  case Drain_err
  with inv nf show ?thesis
    by (auto simp: deadlocked_def parent_step_def drain_inv_def)
next
  case Waiting
  with inv nf show ?thesis
    by (auto simp: deadlocked_def parent_step_def drain_inv_def)
next
  case Returned
  then show ?thesis by (simp add: deadlocked_def)
qed

lemma run_reachable:
  "reachable K scr s \<Longrightarrow> run K ms s = Some s' \<Longrightarrow> reachable K scr s'"
proof (induction ms arbitrary: s)
  case Nil
  then show ?case by simp
next
  case (Cons m ms)
  from Cons.prems(2) obtain s1 where
    s1: "move_step K m s = Some s1" "run K ms s1 = Some s'"
    by (auto split: option.splits)
  from s1(1) have "step K s s1" by (cases m) (auto simp: step_def)
  with Cons.prems(1) have "reachable K scr s1" by (rule reachable.reach_step)
  then show ?case using s1(2) by (rule Cons.IH)
qed

text \<open>The two sample pipes are pipes.\<close>

lemma bounded_pipe_laws: "0 < cap \<Longrightarrow> pipe_laws (bounded_pipe cap)"
  by (auto simp: pipe_laws_def bounded_pipe_def)

lemma concat_drop_bytes: "concat (drop_bytes n p) = drop n (concat p)"
  by (induction p arbitrary: n) auto

lemma page_pipe_laws: "pipe_laws page_pipe"
proof -
  have put: "concat (if merges p bs then butlast p @ [last p @ bs] else p @ [bs]) = concat p @ bs"
    for p :: "string list" and bs
  proof (cases "merges p bs")
    case True
    then have "p = butlast p @ [last p]" by (simp add: merges_def)
    then have "concat p = concat (butlast p) @ last p"
      by (metis append_Nil2 concat.simps(1) concat.simps(2) concat_append)
    with True show ?thesis by simp
  next
    case False
    then show ?thesis by simp
  qed
  have acc: "0 < (if merges p bs then length bs
                  else if length (filter (\<lambda>sl. sl \<noteq> []) p) < 16 then min 4096 (length bs) else 0)"
    if "concat p = []" "bs \<noteq> []" for p :: "string list" and bs
  proof -
    from that(1) have "filter (\<lambda>sl. sl \<noteq> []) p = []"
      by (induction p) auto
    with that(2) show ?thesis by simp
  qed
  show ?thesis
    unfolding pipe_laws_def page_pipe_def
    by (simp add: put concat_drop_bytes acc del: concat_eq_Nil_conv)
qed

lemma read_child_output_no_cr:
  "read_child_output rs acc = Some (Inr out) \<Longrightarrow> carriage_return \<notin> set acc \<Longrightarrow>
     carriage_return \<notin> set out"
  by (induction rs arbitrary: acc) (auto split: if_splits)

lemma run_process_waits:
  assumes "CreatePipe_out_ok os" "CreatePipe_err_ok os"
    and "CreateProcess_rc os (create_child_process_args StdOut StdErr aCommand) = 1"
    and "\<not> wait_returns os"
  shows "fst (run_process os aCommand) = None"
  using assms by (simp add: run_process_def create_child_process_def Let_def)

text \<open>
  C3 (the two drains do not serialise behind each other; a child that writes more than the
  pipe capacity to both streams is drained without deadlock and completely). The POSIX
  code drains standard output until a \<^verbatim>\<open>read\<close> returns 0 or -1 before it reads standard
  error. What holds of it, for every pipe: in every reachable state nothing has been
  captured from standard error while standard output is being drained; every step lowers
  \<open>work_left\<close>, so no run is infinite; as long as no \<^verbatim>\<open>read\<close> has failed and the standard error
  pipe, unread, takes all the child's writes to standard error without blocking, no
  reachable state is a deadlock; and when the invocation has returned without a failed
  \<^verbatim>\<open>read\<close>, the captured streams are what the child wrote. The Windows code reads nothing
  before the wait for the child's exit has returned, and what it captures contains no
  carriage return.
\<close>

theorem serial_drain_completes:
  "(pipe_laws K \<and> reachable K scr s \<longrightarrow>
      (pc s = Drain_out \<longrightarrow> lStderr s = []) \<and>
      (\<forall>s'. step K s s' \<longrightarrow> work_left K s' < work_left K s) \<and>
      (\<not> read_failed s \<and> takes_all K (p_empty K) (writes_to Err scr) \<longrightarrow> \<not> deadlocked K s) \<and>
      (\<not> read_failed s \<and> pc s = Returned \<longrightarrow>
         lStdout s = written Out scr \<and> lStderr s = written Err scr)) \<and>
   (CreatePipe_out_ok wos \<and> CreatePipe_err_ok wos \<and>
    CreateProcess_rc wos (create_child_process_args StdOut StdErr
       (win32_command_line isExec aCommand aArgs aEnv)) = 1 \<and>
    \<not> wait_returns wos \<longrightarrow>
      fst (evaluate_win32 wos isExec aCommand aArgs aEnv) = Never_returns) \<and>
   (read_child_output rs [] = Some (Inr wout) \<longrightarrow> carriage_return \<notin> set wout)"
proof (intro conjI impI)
  assume a: "pipe_laws K \<and> reachable K scr s"
  then have laws: "pipe_laws K" and r: "reachable K scr s" by simp_all
  from reachable_drain_inv [OF laws r] have inv: "drain_inv K scr s" .
  from inv show "pc s = Drain_out \<Longrightarrow> lStderr s = []"
    by (simp add: drain_inv_def)
  show "\<forall>s'. step K s s' \<longrightarrow> work_left K s' < work_left K s"
    by (auto simp: step_def intro: work_left_child [OF laws] work_left_parent [OF laws])
  show "\<not> deadlocked K s"
    if "\<not> read_failed s \<and> takes_all K (p_empty K) (writes_to Err scr)"
    using that no_deadlock [OF laws inv reachable_stderr_fits [OF _ r]] by simp
  show "lStdout s = written Out scr" "lStderr s = written Err scr"
    if "\<not> read_failed s \<and> pc s = Returned"
    using that inv by (auto simp: drain_inv_def)
next
  assume a: "CreatePipe_out_ok wos \<and> CreatePipe_err_ok wos \<and>
    CreateProcess_rc wos (create_child_process_args StdOut StdErr
       (win32_command_line isExec aCommand aArgs aEnv)) = 1 \<and>
    \<not> wait_returns wos"
  then have "fst (run_process wos (win32_command_line isExec aCommand aArgs aEnv)) = None"
    by (intro run_process_waits) simp_all
  then show "fst (evaluate_win32 wos isExec aCommand aArgs aEnv) = Never_returns"
    by (cases "run_process wos (win32_command_line isExec aCommand aArgs aEnv)")
      (simp add: evaluate_win32_def Let_def)
next
  assume "read_child_output rs [] = Some (Inr wout)"
  then show "carriage_return \<notin> set wout"
    by (rule read_child_output_no_cr) simp
qed

text \<open>
  A run on byte-counting pipes of two bytes: three bytes to standard output, one to
  standard error. The schedule lets the child fill the pipe, the parent empty it, the
  child finish, and the parent drain both pipes and collect the child. On Windows, a wait
  that does not return, and a line ending in carriage return and line feed.
\<close>

theorem serial_drain_completes_witness:
  "pipe_laws (bounded_pipe 2) \<and>
   run (bounded_pipe 2)
     [Child_moves, Parent_moves, Child_moves, Child_moves, Parent_moves, Parent_moves,
      Parent_moves, Parent_moves, Parent_moves]
     (init (bounded_pipe 2) [(Out, ''abc''), (Err, ''e'')]) =
     Some \<lparr> script = [], pipe_out = [], pipe_err = [], lStdout = ''abc'', lStderr = ''e'',
            pc = Returned, read_failed = False \<rparr> \<and>
   reachable (bounded_pipe 2) [(Out, ''abc''), (Err, ''e'')]
     \<lparr> script = [], pipe_out = [], pipe_err = [], lStdout = ''abc'', lStderr = ''e'',
       pc = Returned, read_failed = False \<rparr> \<and>
   takes_all (bounded_pipe 2) (p_empty (bounded_pipe 2))
     (writes_to Err [(Out, ''abc''), (Err, ''e'')]) \<and>
   \<not> deadlocked (bounded_pipe 2)
       \<lparr> script = [], pipe_out = [], pipe_err = [], lStdout = ''abc'', lStderr = ''e'',
         pc = Returned, read_failed = False \<rparr> \<and>
   written Out [(Out, ''abc''), (Err, ''e'')] = ''abc'' \<and>
   written Err [(Out, ''abc''), (Err, ''e'')] = ''e'' \<and>
   pc (init (bounded_pipe 2) [(Out, ''abc''), (Err, ''e'')]) = Drain_out \<and>
   lStderr (init (bounded_pipe 2) [(Out, ''abc''), (Err, ''e'')]) = [] \<and>
   step (bounded_pipe 2) (init (bounded_pipe 2) [(Out, ''abc''), (Err, ''e'')])
     \<lparr> script = [(Out, ''c''), (Err, ''e'')], pipe_out = ''ab'', pipe_err = [], lStdout = [],
       lStderr = [], pc = Drain_out, read_failed = False \<rparr> \<and>
   work_left (bounded_pipe 2)
     \<lparr> script = [(Out, ''c''), (Err, ''e'')], pipe_out = ''ab'', pipe_err = [], lStdout = [],
       lStderr = [], pc = Drain_out, read_failed = False \<rparr>
     < work_left (bounded_pipe 2) (init (bounded_pipe 2) [(Out, ''abc''), (Err, ''e'')]) \<and>
   \<not> wait_returns (sample_win\<lparr> wait_returns := False \<rparr>) \<and>
   fst (evaluate_win32 (sample_win\<lparr> wait_returns := False \<rparr>) False ''hello'' [] []) =
     Never_returns \<and>
   read_child_output
     [\<lparr> rf_ok = True, rf_bytes = [CHR ''a'', CHR 0x0D, CHR 0x0A], rf_last_error = 0 \<rparr>,
      broken_pipe] [] = Some (Inr [CHR ''a'', CHR 0x0A]) \<and>
   carriage_return \<notin> set [CHR ''a'', CHR 0x0A]"
proof -
  let ?K = "bounded_pipe 2"
  let ?scr = "[(Out, ''abc''), (Err, ''e'')]"
  let ?fin = "\<lparr> script = [], pipe_out = [], pipe_err = [], lStdout = ''abc'', lStderr = ''e'',
                pc = Returned, read_failed = False \<rparr> :: string sys"
  let ?s1 = "\<lparr> script = [(Out, ''c''), (Err, ''e'')], pipe_out = ''ab'', pipe_err = [],
               lStdout = [], lStderr = [], pc = Drain_out, read_failed = False \<rparr> :: string sys"
  let ?wos = "sample_win\<lparr> wait_returns := False \<rparr>"
  let ?rs = "[\<lparr> rf_ok = True, rf_bytes = [CHR ''a'', CHR 0x0D, CHR 0x0A], rf_last_error = 0 \<rparr>,
              broken_pipe]"
  have laws: "pipe_laws ?K" by (rule bounded_pipe_laws) simp
  have r: "run ?K [Child_moves, Parent_moves, Child_moves, Child_moves, Parent_moves,
                   Parent_moves, Parent_moves, Parent_moves, Parent_moves] (init ?K ?scr)
             = Some ?fin"
    by (simp add: init_def child_step_def parent_step_def PATH_MAX_def Let_def bounded_pipe_def)
  have reach: "reachable ?K ?scr ?fin"
    using reachable.reach_init r by (rule run_reachable)
  have fits: "takes_all ?K (p_empty ?K) (writes_to Err ?scr)"
    by (simp add: bounded_pipe_def feeds.simps)
  have nf: "\<not> read_failed ?fin" "pc ?fin = Returned" by simp_all
  have w: "CreatePipe_out_ok ?wos" "CreatePipe_err_ok ?wos"
    "CreateProcess_rc ?wos (create_child_process_args StdOut StdErr
       (win32_command_line False ''hello'' [] [])) = 1"
    "\<not> wait_returns ?wos"
    by (simp_all add: sample_win_def)
  have rd: "read_child_output ?rs [] = Some (Inr [CHR ''a'', CHR 0x0A])"
    by (simp add: broken_pipe_def carriage_return_def ERROR_BROKEN_PIPE_def)
  from serial_drain_completes
    [of ?K ?scr ?fin ?wos False "''hello''" "[]" "[]" ?rs "[CHR ''a'', CHR 0x0A]"]
    laws reach fits nf w rd
  have "\<not> deadlocked ?K ?fin" "lStdout ?fin = written Out ?scr" "lStderr ?fin = written Err ?scr"
    "fst (evaluate_win32 ?wos False ''hello'' [] []) = Never_returns"
    "carriage_return \<notin> set [CHR ''a'', CHR 0x0A]"
    by simp_all
  note fin = this
  have st: "step ?K (init ?K ?scr) ?s1"
    by (simp add: step_def init_def child_step_def Let_def bounded_pipe_def)
  have i: "pc (init ?K ?scr) = Drain_out" by (simp add: init_def)
  from serial_drain_completes
    [of ?K ?scr "init ?K ?scr" ?wos False "''hello''" "[]" "[]" ?rs "[CHR ''a'', CHR 0x0A]"]
    laws reachable.reach_init [of ?K ?scr] i st
  have "lStderr (init ?K ?scr) = []" "work_left ?K ?s1 < work_left ?K (init ?K ?scr)"
    by blast+
  with fin laws r reach fits w(4) rd i st show ?thesis by simp
qed

text \<open>
  With more than a pipe's capacity written to standard error first, the child fills the
  standard error pipe and blocks; the parent is blocked in the first loop, reading the
  empty standard output pipe; no side can move.
\<close>

lemma big_writer_first_step:
  "run (bounded_pipe 65536) [Child_moves] (init (bounded_pipe 65536) big_writer) = Some big_stuck"
  by (simp add: init_def big_writer_def big_stuck_def child_step_def Let_def bounded_pipe_def)

lemma big_stuck_deadlocked: "deadlocked (bounded_pipe 65536) big_stuck"
  by (simp add: deadlocked_def big_stuck_def child_step_def parent_step_def Let_def
      bounded_pipe_def)

lemma big_writer_parent_blocked:
  "parent_step (bounded_pipe 65536) False (init (bounded_pipe 65536) big_writer) = None"
  by (simp add: parent_step_def init_def big_writer_def bounded_pipe_def)

theorem big_writer_deadlocks:
  "length (written Out big_writer) = 65537 \<and> length (written Err big_writer) = 65537 \<and>
   parent_step (bounded_pipe 65536) False (init (bounded_pipe 65536) big_writer) = None \<and>
   run (bounded_pipe 65536) [Child_moves] (init (bounded_pipe 65536) big_writer) = Some big_stuck \<and>
   reachable (bounded_pipe 65536) big_writer big_stuck \<and>
   deadlocked (bounded_pipe 65536) big_stuck \<and>
   pc big_stuck = Drain_out \<and> \<not> read_failed big_stuck"
proof -
  have "reachable (bounded_pipe 65536) big_writer big_stuck"
    using reachable.reach_init big_writer_first_step by (rule run_reachable)
  moreover have "length (written Out big_writer) = 65537" "length (written Err big_writer) = 65537"
    by (simp_all add: big_writer_def)
  moreover have "pc big_stuck = Drain_out" "\<not> read_failed big_stuck"
    by (simp_all add: big_stuck_def)
  ultimately show ?thesis
    using big_writer_first_step big_stuck_deadlocked big_writer_parent_blocked by simp
qed

text \<open>
  The byte count alone does not decide. Seventeen writes of 2049 bytes, 34833 bytes in all,
  go into a byte-counting pipe of 65536 bytes; the page-slot pipe has no slot left for the
  seventeenth, and the invocation is deadlocked with 32784 bytes queued.
\<close>

lemma line_facts:
  "length line = 2049" "line \<noteq> []" "take 2049 line = line" "drop 2049 line = []"
  by (simp_all add: line_def)

lemma replicate_17: "replicate 17 x = [x, x, x, x, x, x, x, x, x, x, x, x, x, x, x, x, x]"
  by (simp add: eval_nat_numeral)

lemma replicate_16: "replicate 16 x = [x, x, x, x, x, x, x, x, x, x, x, x, x, x, x, x]"
  by (simp add: eval_nat_numeral)

lemma line_writer_bytes: "length (written Err line_writer) = 34833"
  by (simp add: line_writer_def replicate_17 line_facts)

lemma line_writer_deadlocks:
  "run page_pipe (replicate 16 Child_moves) (init page_pipe line_writer) = Some line_stuck"
  "deadlocked page_pipe line_stuck"
  "length (p_queued page_pipe (pipe_err line_stuck)) = 32784"
  by (simp_all add: replicate_16 replicate_17 line_writer_def line_stuck_def init_def
      child_step_def parent_step_def deadlocked_def Let_def page_pipe_def merges_def line_facts)

lemma line_writer_fits:
  "takes_all (bounded_pipe 65536) (p_empty (bounded_pipe 65536)) (writes_to Err line_writer)"
  "\<not> takes_all page_pipe (p_empty page_pipe) (writes_to Err line_writer)"
  by (simp_all add: replicate_17 line_writer_def bounded_pipe_def page_pipe_def merges_def
      feeds.simps line_facts)

end
